theory Spec2Isabelle
  imports Complex_Main
begin

section \<open>Python values, exceptions and array primitives\<close>

text \<open>
  The PPO agent of \<^verbatim>\<open>skrl/agents/jax/ppo/ppo.py\<close>. Arrays of floating-point numbers are
  modelled as lists of real numbers (exact arithmetic; rounding is not modelled). A
  two-dimensional array of shape \<open>(T, N, 1)\<close> (time steps by environments) is a list of
  \<open>T\<close> rows, each a list of \<open>N\<close> numbers; the trailing unit dimension is dropped. A Python
  scalar that takes part in array arithmetic is a one-element row: it broadcasts in the
  same way. A raised exception is an \<open>Inl\<close> result.
\<close>

datatype py_error =
    IndexError | ValueError | KeyError | AttributeError | TypeError | ZeroDivisionError
  | NotImplementedError

definition bind_res :: "py_error + 'a \<Rightarrow> ('a \<Rightarrow> py_error + 'b) \<Rightarrow> py_error + 'b" where
  "bind_res m f = (case m of Inl e \<Rightarrow> Inl e | Inr x \<Rightarrow> f x)"

text \<open>\<^verbatim>\<open>xs[i]\<close> for a non-negative index: out of range raises IndexError.\<close>

definition np_get :: "'a list \<Rightarrow> nat \<Rightarrow> py_error + 'a" where
  "np_get xs i = (if i < length xs then Inr (xs ! i) else Inl IndexError)"

text \<open>
  An elementwise binary operation on two rows with numpy's broadcasting: equal lengths
  combine pointwise, a row of length one is stretched, anything else raises ValueError.
\<close>

definition np_broadcast2 :: "('a \<Rightarrow> 'b \<Rightarrow> 'c) \<Rightarrow> 'a list \<Rightarrow> 'b list \<Rightarrow> py_error + 'c list" where
  "np_broadcast2 f xs ys =
     (if length xs = length ys then Inr (map2 f xs ys)
      else if length xs = 1 then Inr (map (f (hd xs)) ys)
      else if length ys = 1 then Inr (map (\<lambda>x. f x (hd ys)) xs)
      else Inl ValueError)"

text \<open>The same on the leading (time) dimension, each pair of rows combined by \<open>np_broadcast2\<close>.\<close>

fun sequence_res :: "(py_error + 'a) list \<Rightarrow> py_error + 'a list" where
  "sequence_res [] = Inr []"
| "sequence_res (m # ms) = bind_res m (\<lambda>x. bind_res (sequence_res ms) (\<lambda>xs. Inr (x # xs)))"

definition np_broadcast2_rows ::
  "('a \<Rightarrow> 'b \<Rightarrow> 'c) \<Rightarrow> 'a list list \<Rightarrow> 'b list list \<Rightarrow> py_error + 'c list list" where
  "np_broadcast2_rows f A B =
     (if length A = length B then sequence_res (map2 (np_broadcast2 f) A B)
      else if length A = 1 then sequence_res (map (np_broadcast2 f (hd A)) B)
      else if length B = 1 then sequence_res (map (\<lambda>a. np_broadcast2 f a (hd B)) A)
      else Inl ValueError)"

text \<open>
  \<^verbatim>\<open>A[i] = row\<close> for \<open>i\<close> in range: the assigned value must have the shape of the row
  it replaces, or one element (stretched over the row).
\<close>

definition np_setitem :: "'a list list \<Rightarrow> nat \<Rightarrow> 'a list \<Rightarrow> py_error + 'a list list" where
  "np_setitem A i row =
     (if \<not> i < length A then Inl IndexError
      else if length row = length (A ! i) then Inr (A[i := row])
      else if length row = 1 then Inr (A[i := replicate (length (A ! i)) (hd row)])
      else Inl ValueError)"

text \<open>
  \<^verbatim>\<open>A.mean()\<close> and \<^verbatim>\<open>A.std()\<close> over all the elements of the array (the population
  standard deviation, numpy's default). On an empty array numpy returns nan (with a
  warning) where these return 0; the only use below is elementwise on that same empty
  array, whose result is the empty array in both cases.
\<close>

definition np_mean :: "real list list \<Rightarrow> real" where
  "np_mean A = sum_list (concat A) / real (length (concat A))"

definition np_std :: "real list list \<Rightarrow> real" where
  "np_std A = sqrt (np_mean (map (map (\<lambda>x. \<bar>x - np_mean A\<bar> ^ 2)) A))"

section \<open>Generalized advantage estimation\<close>

text \<open>
  One iteration of the loop of \<^verbatim>\<open>compute_gae\<close> at index \<open>i\<close>, on the loop's variables
  \<open>(next_values, advantage, advantages)\<close>. The operands are evaluated in Python's order.
\<close>

definition gae_step ::
  "real list list \<Rightarrow> real list list \<Rightarrow> bool list list \<Rightarrow> nat \<Rightarrow> real \<Rightarrow> real \<Rightarrow> nat \<Rightarrow>
   real list \<times> real list \<times> real list list \<Rightarrow> py_error + (real list \<times> real list \<times> real list list)" where
  "gae_step rewards values not_dones memory_size discount_factor lambda_coefficient i st =
     (case st of (next_values, advantage, advantages) \<Rightarrow>
      bind_res (if i < memory_size - 1 then np_get values (i + 1) else Inr next_values) (\<lambda>next_values.
      bind_res (np_get rewards i) (\<lambda>r.
      bind_res (np_get values i) (\<lambda>v.
      bind_res (np_broadcast2 (-) r v) (\<lambda>delta.
      bind_res (np_get not_dones i) (\<lambda>nd.
      bind_res (np_broadcast2 (+) next_values (map (\<lambda>a. lambda_coefficient * a) advantage)) (\<lambda>boot.
      bind_res (np_broadcast2 (*) (map (\<lambda>b. discount_factor * of_bool b) nd) boot) (\<lambda>cont.
      bind_res (np_broadcast2 (+) delta cont) (\<lambda>advantage.
      bind_res (np_setitem advantages i advantage) (\<lambda>advantages.
      Inr (next_values, advantage, advantages)))))))))))"

text \<open>
  \<^verbatim>\<open>for i in reversed(range(memory_size))\<close>: \<open>gae_loop \<dots> n\<close> runs the iterations
  \<open>i = n - 1, \<dots>, 0\<close>.
\<close>

fun gae_loop ::
  "real list list \<Rightarrow> real list list \<Rightarrow> bool list list \<Rightarrow> nat \<Rightarrow> real \<Rightarrow> real \<Rightarrow> nat \<Rightarrow>
   real list \<times> real list \<times> real list list \<Rightarrow> py_error + (real list \<times> real list \<times> real list list)" where
  "gae_loop rewards values not_dones memory_size discount_factor lambda_coefficient 0 st = Inr st"
| "gae_loop rewards values not_dones memory_size discount_factor lambda_coefficient (Suc i) st =
     bind_res (gae_step rewards values not_dones memory_size discount_factor lambda_coefficient i st)
       (gae_loop rewards values not_dones memory_size discount_factor lambda_coefficient i)"

text \<open>
  Lines 92 to 101 of \<^verbatim>\<open>compute_gae\<close>: the advantages before normalisation. The scalar
  \<^verbatim>\<open>advantage = 0\<close> is the one-element row \<open>[0]\<close>.
\<close>

definition gae_advantages ::
  "real list list \<Rightarrow> bool list list \<Rightarrow> real list list \<Rightarrow> real list \<Rightarrow> real \<Rightarrow> real \<Rightarrow>
   py_error + real list list" where
  "gae_advantages rewards dones values next_values discount_factor lambda_coefficient =
     (let advantage = [0];
          advantages = map (map (\<lambda>_. 0)) rewards;
          not_dones = map (map Not) dones;
          memory_size = length rewards
      in bind_res (gae_loop rewards values not_dones memory_size discount_factor lambda_coefficient
                     memory_size (next_values, advantage, advantages))
           (\<lambda>(next_values, advantage, advantages). Inr advantages))"

definition compute_gae ::
  "real list list \<Rightarrow> bool list list \<Rightarrow> real list list \<Rightarrow> real list \<Rightarrow> real \<Rightarrow> real \<Rightarrow>
   py_error + (real list list \<times> real list list)" where
  "compute_gae rewards dones values next_values discount_factor lambda_coefficient =
     bind_res (gae_advantages rewards dones values next_values discount_factor lambda_coefficient)
       (\<lambda>advantages.
     bind_res (np_broadcast2_rows (+) advantages values) (\<lambda>returns.
     let advantages = map (map (\<lambda>x. (x - np_mean advantages) / (np_std advantages + 1 / 10 ^ 8)))
                        advantages
     in Inr (returns, advantages)))"

text \<open>
  The jit-compiled variant \<^verbatim>\<open>_compute_gae\<close> (an Isabelle name cannot start with an
  underscore): its body is \<^verbatim>\<open>raise NotImplementedError\<close>.
\<close>

definition compute_gae_jit ::
  "real list list \<Rightarrow> bool list list \<Rightarrow> real list list \<Rightarrow> real list \<Rightarrow> real \<Rightarrow> real \<Rightarrow>
   py_error + (real list list \<times> real list list)" where
  "compute_gae_jit rewards dones values next_values discount_factor lambda_coefficient =
     Inl NotImplementedError"

text \<open>
  Well-formed inputs: an array of \<open>T\<close> rows of \<open>N\<close> entries each, and the invariant of the
  backward loop before the iteration at index \<open>k - 1\<close>.
\<close>

definition has_shape :: "nat \<Rightarrow> nat \<Rightarrow> 'a list list \<Rightarrow> bool" where
  "has_shape T N A \<longleftrightarrow> length A = T \<and> list_all (\<lambda>row. length row = N) A"

definition gae_inv ::
  "real list list \<Rightarrow> real list list \<Rightarrow> bool list list \<Rightarrow> real list \<Rightarrow> nat \<Rightarrow> nat \<Rightarrow> real \<Rightarrow> real \<Rightarrow>
   nat \<Rightarrow> real list \<times> real list \<times> real list list \<Rightarrow> bool" where
  "gae_inv rewards values not_dones next_values T N \<gamma> l k st =
     (case st of (nv, adv, advs) \<Rightarrow>
        has_shape T N advs \<and> length nv = N
        \<and> (if k = T then nv = next_values \<and> adv = [0] else adv = advs ! k)
        \<and> (\<forall>i. k \<le> i \<and> i < T \<longrightarrow> (\<forall>j<N. advs ! i ! j =
              rewards ! i ! j - values ! i ! j + \<gamma> * of_bool (not_dones ! i ! j)
                * ((if i < T - 1 then values ! (i + 1) ! j else next_values ! j)
                   + l * (if i < T - 1 then advs ! (i + 1) ! j else 0)))))"

text \<open>Line 105 of \<^verbatim>\<open>compute_gae\<close> as a function of the advantages before normalisation.\<close>

definition normalize :: "real list list \<Rightarrow> real list list" where
  "normalize A = map (map (\<lambda>x. (x - np_mean A) / (np_std A + 1 / 10 ^ 8))) A"

section \<open>Policy and value losses\<close>

text \<open>
  A minibatch array of shape \<open>(B, 1)\<close> is a list of \<open>B\<close> reals. \<^verbatim>\<open>x.mean()\<close> of such an
  array; on an empty array jax returns nan where this returns 0.
\<close>

definition jnp_mean :: "real list \<Rightarrow> real" where
  "jnp_mean xs = sum_list xs / real (length xs)"

text \<open>\<^verbatim>\<open>jnp.clip(x, a_min, a_max)\<close> is \<^verbatim>\<open>minimum(a_max, maximum(x, a_min))\<close>.\<close>

definition jnp_clip :: "real \<Rightarrow> real \<Rightarrow> real \<Rightarrow> real" where
  "jnp_clip x a_min a_max = min a_max (max x a_min)"

text \<open>
  The inner function \<^verbatim>\<open>_policy_loss(params)\<close> of \<^verbatim>\<open>_update_policy\<close>. The policy's forward
  pass \<open>policy_act\<close> is a parameter: from the parameters, the states and the taken actions
  it gives the log-probabilities (the second component of what \<^verbatim>\<open>policy.act\<close> returns).
  The result is the pair of the loss and the approximate KL divergence. A shape mismatch
  in an elementwise operation raises.
\<close>

definition policy_loss ::
  "('p \<Rightarrow> 'x \<Rightarrow> 'a \<Rightarrow> real list) \<Rightarrow> 'x \<Rightarrow> 'a \<Rightarrow> real list \<Rightarrow> real list \<Rightarrow> real \<Rightarrow> 'p \<Rightarrow>
   py_error + (real \<times> real)" where
  "policy_loss policy_act sampled_states sampled_actions sampled_log_prob sampled_advantages
     ratio_clip params =
     (let next_log_prob = policy_act params sampled_states sampled_actions in
      bind_res (np_broadcast2 (-) next_log_prob sampled_log_prob) (\<lambda>ratio.
      bind_res (np_broadcast2 (-) (map (\<lambda>r. exp r - 1) ratio) ratio) (\<lambda>kl_terms.
      let kl_divergence = jnp_mean kl_terms in
      bind_res (np_broadcast2 (-) next_log_prob sampled_log_prob) (\<lambda>log_ratio.
      let ratio = map exp log_ratio in
      bind_res (np_broadcast2 (*) sampled_advantages ratio) (\<lambda>surrogate.
      bind_res (np_broadcast2 (*) sampled_advantages
                  (map (\<lambda>r. jnp_clip r (1 - ratio_clip) (1 + ratio_clip)) ratio))
        (\<lambda>surrogate_clipped.
      bind_res (np_broadcast2 min surrogate surrogate_clipped) (\<lambda>m.
      Inr (- jnp_mean m, kl_divergence))))))))"

text \<open>
  \<^verbatim>\<open>_update_policy\<close>: the loss and the KL divergence at the current parameters, and the
  gradient of the loss function there. Automatic differentiation (\<^verbatim>\<open>jax.value_and_grad\<close>)
  is the parameter \<open>jax_grad\<close>, given the function it differentiates and the point.
\<close>

definition update_policy ::
  "(('p \<Rightarrow> py_error + (real \<times> real)) \<Rightarrow> 'p \<Rightarrow> 'g) \<Rightarrow> ('p \<Rightarrow> 'x \<Rightarrow> 'a \<Rightarrow> real list) \<Rightarrow> 'p \<Rightarrow>
   'x \<Rightarrow> 'a \<Rightarrow> real list \<Rightarrow> real list \<Rightarrow> real \<Rightarrow> py_error + ('g \<times> real \<times> real)" where
  "update_policy jax_grad policy_act params sampled_states sampled_actions sampled_log_prob
     sampled_advantages ratio_clip =
     (let loss_fn = policy_loss policy_act sampled_states sampled_actions sampled_log_prob
                      sampled_advantages ratio_clip in
      bind_res (loss_fn params) (\<lambda>(policy_loss, kl_divergence).
      Inr (jax_grad loss_fn params, policy_loss, kl_divergence)))"

text \<open>The inner function \<^verbatim>\<open>_value_loss(params)\<close> of \<^verbatim>\<open>_update_value\<close>.\<close>

definition value_loss ::
  "('p \<Rightarrow> 'x \<Rightarrow> real list) \<Rightarrow> 'x \<Rightarrow> real list \<Rightarrow> real list \<Rightarrow> real \<Rightarrow> bool \<Rightarrow> real \<Rightarrow> 'p \<Rightarrow>
   py_error + real" where
  "value_loss value_act sampled_states sampled_values sampled_returns value_loss_scale
     clip_predicted_values value_clip params =
     (let predicted_values = value_act params sampled_states in
      bind_res (if clip_predicted_values
                then bind_res (np_broadcast2 (-) predicted_values sampled_values) (\<lambda>d.
                     np_broadcast2 (+) sampled_values
                       (map (\<lambda>x. jnp_clip x (- value_clip) value_clip) d))
                else Inr predicted_values) (\<lambda>predicted_values.
      bind_res (np_broadcast2 (-) sampled_returns predicted_values) (\<lambda>err.
      Inr (value_loss_scale * jnp_mean (map (\<lambda>e. e ^ 2) err)))))"

definition update_value ::
  "(('p \<Rightarrow> py_error + real) \<Rightarrow> 'p \<Rightarrow> 'g) \<Rightarrow> ('p \<Rightarrow> 'x \<Rightarrow> real list) \<Rightarrow> 'p \<Rightarrow>
   'x \<Rightarrow> real list \<Rightarrow> real list \<Rightarrow> real \<Rightarrow> bool \<Rightarrow> real \<Rightarrow> py_error + ('g \<times> real)" where
  "update_value jax_grad value_act params sampled_states sampled_values sampled_returns
     value_loss_scale clip_predicted_values value_clip =
     (let loss_fn = value_loss value_act sampled_states sampled_values sampled_returns
                      value_loss_scale clip_predicted_values value_clip in
      bind_res (loss_fn params) (\<lambda>value_loss. Inr (jax_grad loss_fn params, value_loss)))"

section \<open>Configuration and construction\<close>

text \<open>
  Python values that occur in a configuration dictionary. A class or a function is named by
  a string. A dictionary is an association list in insertion order.
\<close>

datatype pyval =
    PInt int
  | PFloat real
  | PBool bool
  | PNone
  | PStr string
  | PCallable string
  | PDict "(string \<times> pyval) list"

type_synonym pydict = "(string \<times> pyval) list"

text \<open>\<^verbatim>\<open>d[k]\<close>: a missing key raises KeyError.\<close>

definition dict_getitem :: "pydict \<Rightarrow> string \<Rightarrow> py_error + pyval" where
  "dict_getitem d k = (case map_of d k of None \<Rightarrow> Inl KeyError | Some v \<Rightarrow> Inr v)"

text \<open>\<^verbatim>\<open>d[k] = v\<close>: an existing key keeps its place, a new key is appended.\<close>

fun dict_setitem :: "pydict \<Rightarrow> string \<Rightarrow> pyval \<Rightarrow> pydict" where
  "dict_setitem [] k v = [(k, v)]"
| "dict_setitem ((k', v') # d) k v =
     (if k' = k then (k, v) # d else (k', v') # dict_setitem d k v)"

text \<open>\<^verbatim>\<open>d.update(other)\<close>: every item of \<open>other\<close> is stored in \<open>d\<close>, in order (a shallow merge).\<close>

definition dict_update :: "pydict \<Rightarrow> pydict \<Rightarrow> pydict" where
  "dict_update d other = fold (\<lambda>(k, v) d. dict_setitem d k v) other d"

text \<open>The literal that the module binds to \<^verbatim>\<open>PPO_DEFAULT_CONFIG\<close> when it is imported.\<close>

definition PPO_DEFAULT_CONFIG_literal :: pydict where
  "PPO_DEFAULT_CONFIG_literal =
    [(''rollouts'', PInt 16),
     (''learning_epochs'', PInt 8),
     (''mini_batches'', PInt 2),
     (''discount_factor'', PFloat (99 / 100)),
     (''lambda'', PFloat (95 / 100)),
     (''learning_rate'', PFloat (1 / 1000)),
     (''learning_rate_scheduler'', PNone),
     (''learning_rate_scheduler_kwargs'', PDict []),
     (''state_preprocessor'', PNone),
     (''state_preprocessor_kwargs'', PDict []),
     (''value_preprocessor'', PNone),
     (''value_preprocessor_kwargs'', PDict []),
     (''random_timesteps'', PInt 0),
     (''learning_starts'', PInt 0),
     (''grad_norm_clip'', PFloat (1 / 2)),
     (''ratio_clip'', PFloat (2 / 10)),
     (''value_clip'', PFloat (2 / 10)),
     (''clip_predicted_values'', PBool False),
     (''entropy_loss_scale'', PFloat 0),
     (''value_loss_scale'', PFloat 1),
     (''kl_threshold'', PInt 0),
     (''rewards_shaper'', PNone),
     (''experiment'', PDict
        [(''directory'', PStr []),
         (''experiment_name'', PStr []),
         (''write_interval'', PInt 250),
         (''checkpoint_interval'', PInt 1000),
         (''store_separately'', PBool False),
         (''wandb'', PBool False),
         (''wandb_kwargs'', PDict [])])]"

text \<open>
  Dictionaries are objects: the store maps an address to the dictionary that lives there.
  The module-level name \<^verbatim>\<open>PPO_DEFAULT_CONFIG\<close> refers to the object at address 0 for the
  whole run of the program.
\<close>

type_synonym store = "nat \<Rightarrow> pydict"

definition PPO_DEFAULT_CONFIG :: nat where
  "PPO_DEFAULT_CONFIG = 0"

definition initial_store :: store where
  "initial_store = (\<lambda>_. [])(PPO_DEFAULT_CONFIG := PPO_DEFAULT_CONFIG_literal)"

text \<open>
  The configuration attributes that \<^verbatim>\<open>PPO.__init__\<close> sets (lines 235 to 262), and \<open>cfg\<close>,
  the reference that the constructor passes to the base class as \<^verbatim>\<open>cfg=_cfg\<close> and reads
  back as \<^verbatim>\<open>self.cfg\<close>.
\<close>

record ppo_attributes =
  cfg :: nat
  learning_epochs_attr :: pyval
  mini_batches_attr :: pyval
  rollouts_attr :: pyval
  grad_norm_clip_attr :: pyval
  ratio_clip_attr :: pyval
  value_clip_attr :: pyval
  clip_predicted_values_attr :: pyval
  value_loss_scale_attr :: pyval
  entropy_loss_scale_attr :: pyval
  kl_threshold_attr :: pyval
  learning_rate_attr :: pyval
  learning_rate_scheduler_attr :: pyval
  state_preprocessor_attr :: pyval
  value_preprocessor_attr :: pyval
  discount_factor_attr :: pyval
  lambda_attr :: pyval
  random_timesteps_attr :: pyval
  learning_starts_attr :: pyval
  rewards_shaper_attr :: pyval

text \<open>
  \<^verbatim>\<open>PPO.__init__\<close>, its configuration part. \<^verbatim>\<open>_cfg = PPO_DEFAULT_CONFIG\<close> binds the local
  name to the module's object (the deep copy is commented out), so \<^verbatim>\<open>_cfg.update(\<dots>)\<close>
  writes to that object. The argument \<open>user_cfg\<close> is the constructor's \<^verbatim>\<open>cfg\<close>, \<open>None\<close>
  when it is not given. The base class's constructor is not in the sources; the reads of
  \<^verbatim>\<open>self.cfg["\<dots>"]\<close> that follow it go to the object it was given.
\<close>

definition PPO_init :: "pydict option \<Rightarrow> store \<Rightarrow> py_error + (store \<times> ppo_attributes)" where
  "PPO_init user_cfg s =
     (let cfg_local = PPO_DEFAULT_CONFIG;
          s = s(cfg_local := dict_update (s cfg_local)
                               (case user_cfg of Some c \<Rightarrow> c | None \<Rightarrow> []));
          self_cfg = s cfg_local
      in
      bind_res (dict_getitem self_cfg ''learning_epochs'') (\<lambda>learning_epochs.
      bind_res (dict_getitem self_cfg ''mini_batches'') (\<lambda>mini_batches.
      bind_res (dict_getitem self_cfg ''rollouts'') (\<lambda>rollouts.
      bind_res (dict_getitem self_cfg ''grad_norm_clip'') (\<lambda>grad_norm_clip.
      bind_res (dict_getitem self_cfg ''ratio_clip'') (\<lambda>ratio_clip.
      bind_res (dict_getitem self_cfg ''value_clip'') (\<lambda>value_clip.
      bind_res (dict_getitem self_cfg ''clip_predicted_values'') (\<lambda>clip_predicted_values.
      bind_res (dict_getitem self_cfg ''value_loss_scale'') (\<lambda>value_loss_scale.
      bind_res (dict_getitem self_cfg ''entropy_loss_scale'') (\<lambda>entropy_loss_scale.
      bind_res (dict_getitem self_cfg ''kl_threshold'') (\<lambda>kl_threshold.
      bind_res (dict_getitem self_cfg ''learning_rate'') (\<lambda>learning_rate.
      bind_res (dict_getitem self_cfg ''learning_rate_scheduler'') (\<lambda>learning_rate_scheduler.
      bind_res (dict_getitem self_cfg ''state_preprocessor'') (\<lambda>state_preprocessor.
      bind_res (dict_getitem self_cfg ''value_preprocessor'') (\<lambda>value_preprocessor.
      bind_res (dict_getitem self_cfg ''discount_factor'') (\<lambda>discount_factor.
      bind_res (dict_getitem self_cfg ''lambda'') (\<lambda>lambda_coefficient.
      bind_res (dict_getitem self_cfg ''random_timesteps'') (\<lambda>random_timesteps.
      bind_res (dict_getitem self_cfg ''learning_starts'') (\<lambda>learning_starts.
      bind_res (dict_getitem self_cfg ''rewards_shaper'') (\<lambda>rewards_shaper.
      Inr (s, \<lparr>cfg = cfg_local,
                learning_epochs_attr = learning_epochs,
                mini_batches_attr = mini_batches,
                rollouts_attr = rollouts,
                grad_norm_clip_attr = grad_norm_clip,
                ratio_clip_attr = ratio_clip,
                value_clip_attr = value_clip,
                clip_predicted_values_attr = clip_predicted_values,
                value_loss_scale_attr = value_loss_scale,
                entropy_loss_scale_attr = entropy_loss_scale,
                kl_threshold_attr = kl_threshold,
                learning_rate_attr = learning_rate,
                learning_rate_scheduler_attr = learning_rate_scheduler,
                state_preprocessor_attr = state_preprocessor,
                value_preprocessor_attr = value_preprocessor,
                discount_factor_attr = discount_factor,
                lambda_attr = lambda_coefficient,
                random_timesteps_attr = random_timesteps,
                learning_starts_attr = learning_starts,
                rewards_shaper_attr = rewards_shaper\<rparr>)))))))))))))))))))))"

section \<open>The agent at run time\<close>

text \<open>
  The models, optimizers, scheduler, preprocessors, memories and the base class are not
  part of the sources: the agent uses them through their methods. An object of one of
  these classes is a value of the type \<open>'obj\<close>, which the agent never inspects, and every
  method is a field of the record \<open>collaborators\<close>: a function of the object (and the
  arguments) that returns the result and, where the call may change the object, the
  object afterwards. Arrays of states and actions have the type \<open>'x\<close>. An array of shape
  \<open>(N, 1)\<close> or \<open>(B, 1)\<close> of numbers is a list of reals, a tensor of the memory (shape
  \<open>(T, N, 1)\<close>) a list of rows. \<^verbatim>\<open>jax.device_get\<close>, which copies an array to the host
  without changing its value, is left out.
\<close>

text \<open>
  The keyword arguments of one call of \<^verbatim>\<open>memory.add_samples\<close> (\<open>kw_states\<close> is
  \<^verbatim>\<open>states=\<close>, and so on).
\<close>

record 'x samples =
  kw_states :: 'x
  kw_actions :: 'x
  kw_rewards :: "real list"
  kw_next_states :: 'x
  kw_terminated :: "bool list"
  kw_truncated :: "bool list"
  kw_log_prob :: "real list option"
  kw_values :: "real list"

text \<open>One minibatch of \<^verbatim>\<open>memory.sample_all\<close>, in the order of \<^verbatim>\<open>self._tensors_names\<close>.\<close>

record 'x minibatch =
  mb_states :: 'x
  mb_actions :: 'x
  mb_log_prob :: "real list"
  mb_values :: "real list"
  mb_returns :: "real list"
  mb_advantages :: "real list"

record ('x, 'obj) collaborators =
  preprocess_states :: "'obj \<Rightarrow> 'x \<Rightarrow> bool \<Rightarrow> 'x \<times> 'obj"
  preprocess_values :: "'obj \<Rightarrow> real list \<Rightarrow> bool \<Rightarrow> bool \<Rightarrow> real list \<times> 'obj"
  preprocess_tensor :: "'obj \<Rightarrow> real list list \<Rightarrow> bool \<Rightarrow> bool \<Rightarrow> real list list \<times> 'obj"
  model_random_act :: "'obj \<Rightarrow> 'x \<Rightarrow> 'obj \<times> 'obj"
  model_act_policy :: "'obj \<Rightarrow> 'x \<Rightarrow> ('x \<times> real list \<times> 'obj) \<times> 'obj"
  model_act_value :: "'obj \<Rightarrow> 'x \<Rightarrow> real list \<times> 'obj"
  model_log_prob :: "'obj \<Rightarrow> 'obj \<Rightarrow> 'x \<Rightarrow> 'x \<Rightarrow> real list"
  model_values :: "'obj \<Rightarrow> 'obj \<Rightarrow> 'x \<Rightarrow> real list"
  model_params :: "'obj \<Rightarrow> 'obj"
  model_set_training :: "bool \<Rightarrow> 'obj \<Rightarrow> 'obj"
  model_get_entropy :: "'obj \<Rightarrow> real list"
  grad_policy :: "('obj \<Rightarrow> py_error + (real \<times> real)) \<Rightarrow> 'obj \<Rightarrow> 'obj"
  grad_value :: "('obj \<Rightarrow> py_error + real) \<Rightarrow> 'obj \<Rightarrow> 'obj"
  optimizer_step :: "'obj \<Rightarrow> 'obj \<Rightarrow> 'obj \<Rightarrow> real option \<Rightarrow> 'obj \<times> 'obj"
  scheduler_step :: "'obj \<Rightarrow> real \<Rightarrow> 'obj"
  scheduler_lr :: "'obj \<Rightarrow> real"
  add_samples :: "'x samples \<Rightarrow> 'obj \<Rightarrow> 'obj"
  get_tensor_by_name :: "'obj \<Rightarrow> string \<Rightarrow> real list list"
  get_terminated :: "'obj \<Rightarrow> bool list list"
  set_tensor_by_name :: "string \<Rightarrow> real list list \<Rightarrow> 'obj \<Rightarrow> 'obj"
  sample_all :: "'obj \<Rightarrow> string list \<Rightarrow> nat \<Rightarrow> 'x minibatch list"
  super_record_transition ::
    "'x \<Rightarrow> 'x \<Rightarrow> real list \<Rightarrow> 'x \<Rightarrow> bool list \<Rightarrow> bool list \<Rightarrow> 'obj \<Rightarrow> int \<Rightarrow> int \<Rightarrow> 'obj \<Rightarrow> 'obj"
  track_data :: "string \<Rightarrow> real \<Rightarrow> 'obj \<Rightarrow> 'obj"

text \<open>
  The fields, in the order of the collaborators' methods:
  \<^item> \<open>preprocess_states pp x train\<close> is \<^verbatim>\<open>self._state_preprocessor(x, train=train)\<close>;
    \<open>preprocess_values pp x train inverse\<close> and \<open>preprocess_tensor\<close> are
    \<^verbatim>\<open>self._value_preprocessor(x, train=train, inverse=inverse)\<close> on one row and on a whole
    tensor;
  \<^item> \<open>model_random_act\<close>, \<open>model_act_policy\<close> and \<open>model_act_value\<close> are
    \<^verbatim>\<open>policy.random_act(\<dots>)\<close>, \<^verbatim>\<open>policy.act(None, \<dots>)\<close> (actions, log-probabilities, outputs)
    and the first component of \<^verbatim>\<open>value.act(None, \<dots>)\<close>;
  \<^item> \<open>model_log_prob m params states actions\<close> and \<open>model_values m params states\<close> are the
    forward passes \<^verbatim>\<open>policy.act(params, \<dots>)\<close> (its log-probabilities) and
    \<^verbatim>\<open>value.act(params, \<dots>)\<close> (its values) used inside the losses; \<open>model_params\<close> is
    \<^verbatim>\<open>state_dict.params\<close>;
  \<^item> \<open>grad_policy\<close> and \<open>grad_value\<close> are automatic differentiation;
  \<^item> \<open>optimizer_step opt grad model lr\<close> is \<^verbatim>\<open>opt.step(grad, model, lr)\<close>: the optimizer
    it returns and the model with its new parameters;
  \<^item> \<open>scheduler_step\<close> and \<open>scheduler_lr\<close> are \<^verbatim>\<open>scheduler.step(kl)\<close> and
    \<^verbatim>\<open>scheduler._lr\<close>;
  \<^item> \<open>get_terminated\<close> is \<^verbatim>\<open>get_tensor_by_name("terminated")\<close>, the one boolean tensor;
  \<^item> \<open>super_record_transition\<close> and \<open>track_data\<close> are methods of the base class, on the
    state that the base class keeps.
\<close>

record ('x, 'obj) agent =
  self_policy :: 'obj
  self_value :: 'obj
  self_policy_optimizer :: 'obj
  self_value_optimizer :: 'obj
  self_scheduler :: "'obj option"
  self_state_preprocessor :: 'obj
  self_value_preprocessor :: 'obj
  self_memory :: "'obj option"
  self_secondary_memories :: "'obj list"
  self_base :: 'obj
  self_tensors_names :: "string list"
  self_learning_epochs :: nat
  self_mini_batches :: nat
  self_rollouts :: nat
  self_rollout :: nat
  self_grad_norm_clip :: real
  self_ratio_clip :: real
  self_value_clip :: real
  self_clip_predicted_values :: bool
  self_value_loss_scale :: real
  self_entropy_loss_scale :: real
  self_kl_threshold :: real
  self_learning_rate_scheduler :: "string option"
  self_discount_factor :: real
  self_lambda :: real
  self_random_timesteps :: int
  self_learning_starts :: int
  self_rewards_shaper :: "(real list \<Rightarrow> int \<Rightarrow> int \<Rightarrow> real list) option"
  self_current_log_prob :: "real list option"
  self_current_next_states :: "'x option"

text \<open>
  The attributes of a \<^verbatim>\<open>PPO\<close> object after \<^verbatim>\<open>__init__\<close> and \<^verbatim>\<open>init\<close>, with the types that
  the methods below use them at (\<open>self_x\<close> is \<^verbatim>\<open>self.x\<close> or \<^verbatim>\<open>self._x\<close>). Both models are
  present. \<open>self_learning_rate_scheduler\<close> is the configured class, by name, or \<open>None\<close>;
  \<open>self_scheduler\<close> is the scheduler object, which \<^verbatim>\<open>__init__\<close> creates only for the class
  \<^verbatim>\<open>KLAdaptiveRL\<close>, so that \<^verbatim>\<open>isinstance(self.scheduler, KLAdaptiveRL)\<close> holds exactly when
  it is not \<open>None\<close>. \<open>self_base\<close> is the state of the base class.
\<close>

datatype ('x, 'obj) act_result =
    RandomAct 'obj
  | Acted 'x "real list" 'obj

text \<open>\<^verbatim>\<open>PPO.act\<close>: what it returns and the agent afterwards.\<close>

definition PPO_act ::
  "('x, 'obj) collaborators \<Rightarrow> 'x \<Rightarrow> int \<Rightarrow> int \<Rightarrow> ('x, 'obj) agent \<Rightarrow>
   ('x, 'obj) act_result \<times> ('x, 'obj) agent" where
  "PPO_act E states_arg timestep timesteps self =
     (if timestep < self_random_timesteps self then
        (case preprocess_states E (self_state_preprocessor self) states_arg False of (x, pp) \<Rightarrow>
         case model_random_act E (self_policy self) x of (result, policy) \<Rightarrow>
           (RandomAct result, self\<lparr>self_state_preprocessor := pp, self_policy := policy\<rparr>))
      else
        (case preprocess_states E (self_state_preprocessor self) states_arg False of (x, pp) \<Rightarrow>
         case model_act_policy E (self_policy self) x of ((actions_out, log_prob_out, outputs), policy) \<Rightarrow>
           (Acted actions_out log_prob_out outputs,
            self\<lparr>self_state_preprocessor := pp, self_policy := policy,
                 self_current_log_prob := Some log_prob_out\<rparr>)))"

text \<open>\<^verbatim>\<open>PPO.record_transition\<close>.\<close>

definition PPO_record_transition ::
  "('x, 'obj) collaborators \<Rightarrow> 'x \<Rightarrow> 'x \<Rightarrow> real list \<Rightarrow> 'x \<Rightarrow> bool list \<Rightarrow> bool list \<Rightarrow> 'obj \<Rightarrow>
   int \<Rightarrow> int \<Rightarrow> ('x, 'obj) agent \<Rightarrow> ('x, 'obj) agent" where
  "PPO_record_transition E states_arg actions_arg rewards_arg next_states_arg terminated_arg
     truncated_arg infos timestep timesteps self =
     (let self = self\<lparr>self_base := super_record_transition E states_arg actions_arg rewards_arg
                   next_states_arg terminated_arg truncated_arg infos timestep timesteps
                   (self_base self)\<rparr>
      in case self_memory self of
           None \<Rightarrow> self
         | Some memory \<Rightarrow>
            (let self = self\<lparr>self_current_next_states := Some next_states_arg\<rparr>;
                 rewards_arg = (case self_rewards_shaper self of
                                  None \<Rightarrow> rewards_arg
                                | Some shaper \<Rightarrow> shaper rewards_arg timestep timesteps)
             in case preprocess_states E (self_state_preprocessor self) states_arg False of (x, spp) \<Rightarrow>
                case model_act_value E (self_value self) x of (values_out, value) \<Rightarrow>
                case preprocess_values E (self_value_preprocessor self) values_out False True
                  of (values_out, vpp) \<Rightarrow>
                (let sample = \<lparr>kw_states = states_arg, kw_actions = actions_arg,
                                kw_rewards = rewards_arg, kw_next_states = next_states_arg,
                                kw_terminated = terminated_arg, kw_truncated = truncated_arg,
                                kw_log_prob = self_current_log_prob self,
                                kw_values = values_out\<rparr>
                 in self\<lparr>self_state_preprocessor := spp, self_value := value,
                         self_value_preprocessor := vpp,
                         self_memory := Some (add_samples E sample memory),
                         self_secondary_memories :=
                           map (add_samples E sample) (self_secondary_memories self)\<rparr>)))"

text \<open>
  The local variables of \<^verbatim>\<open>_update\<close> that the loops change.
\<close>

record update_locals =
  cumulative_policy_loss :: real
  cumulative_entropy_loss :: real
  cumulative_value_loss :: real
  kl_divergences :: "real list"

text \<open>
  The mini-batches loop of \<^verbatim>\<open>_update\<close> (lines 472 to 528) in the epoch \<open>epoch\<close>, over the
  batches still to come. \<^verbatim>\<open>break\<close> ends the loop: the remaining batches are not looked at.
  \<^verbatim>\<open>train=not epoch\<close> is \<open>epoch = 0\<close>, and a number is true when it is not zero.
\<close>

fun minibatch_loop ::
  "('x, 'obj) collaborators \<Rightarrow> nat \<Rightarrow> 'x minibatch list \<Rightarrow> ('x, 'obj) agent \<times> update_locals \<Rightarrow>
   py_error + (('x, 'obj) agent \<times> update_locals)" where
  "minibatch_loop E epoch [] st = Inr st"
| "minibatch_loop E epoch (batch # batches) st =
     (case st of (self, locals) \<Rightarrow>
      case preprocess_states E (self_state_preprocessor self) (mb_states batch) (epoch = 0)
        of (sampled_states, pp) \<Rightarrow>
      let self = self\<lparr>self_state_preprocessor := pp\<rparr> in
      bind_res (update_policy (grad_policy E) (model_log_prob E (self_policy self))
                  (model_params E (self_policy self)) sampled_states (mb_actions batch)
                  (mb_log_prob batch) (mb_advantages batch) (self_ratio_clip self))
        (\<lambda>(grad, policy_loss, kl_divergence).
      let locals = locals\<lparr>kl_divergences := kl_divergences locals @ [kl_divergence]\<rparr> in
      if self_kl_threshold self \<noteq> 0 \<and> kl_divergence > self_kl_threshold self
      then Inr (self, locals)
      else
        let entropy_loss =
              (if self_entropy_loss_scale self \<noteq> 0
               then - self_entropy_loss_scale self
                      * jnp_mean (model_get_entropy E (self_policy self))
               else 0)
        in
        case optimizer_step E (self_policy_optimizer self) grad (self_policy self)
               (case self_scheduler self of Some sch \<Rightarrow> Some (scheduler_lr E sch) | None \<Rightarrow> None)
          of (policy_optimizer, policy) \<Rightarrow>
        let self = self\<lparr>self_policy_optimizer := policy_optimizer, self_policy := policy\<rparr> in
        bind_res (update_value (grad_value E) (model_values E (self_value self))
                    (model_params E (self_value self)) sampled_states (mb_values batch)
                    (mb_returns batch) (self_value_loss_scale self)
                    (self_clip_predicted_values self) (self_value_clip self))
          (\<lambda>(grad, value_loss).
        case optimizer_step E (self_value_optimizer self) grad (self_value self)
               (case self_scheduler self of Some sch \<Rightarrow> Some (scheduler_lr E sch) | None \<Rightarrow> None)
          of (value_optimizer, value) \<Rightarrow>
        let self = self\<lparr>self_value_optimizer := value_optimizer, self_value := value\<rparr>;
            locals = locals\<lparr>cumulative_policy_loss := cumulative_policy_loss locals + policy_loss,
                            cumulative_value_loss := cumulative_value_loss locals + value_loss\<rparr>;
            locals = (if self_entropy_loss_scale self \<noteq> 0
                      then locals\<lparr>cumulative_entropy_loss :=
                                       cumulative_entropy_loss locals + entropy_loss\<rparr>
                      else locals)
        in minibatch_loop E epoch batches (self, locals))))"

text \<open>
  One learning epoch (lines 469 to 533): the list of KL divergences starts empty, the
  mini-batches loop runs, and a KL-adaptive scheduler is stepped with the mean of the list
  (\<^verbatim>\<open>np.mean\<close>, here \<open>jnp_mean\<close>: the sum over the length).
\<close>

definition learning_epoch ::
  "('x, 'obj) collaborators \<Rightarrow> 'x minibatch list \<Rightarrow> nat \<Rightarrow> ('x, 'obj) agent \<times> update_locals \<Rightarrow>
   py_error + (('x, 'obj) agent \<times> update_locals)" where
  "learning_epoch E sampled_batches epoch st =
     (case st of (self, locals) \<Rightarrow>
      bind_res (minibatch_loop E epoch sampled_batches (self, locals\<lparr>kl_divergences := []\<rparr>))
        (\<lambda>(self, locals).
      Inr (if self_learning_rate_scheduler self \<noteq> None
           then (case self_scheduler self of
                   Some sch \<Rightarrow> self\<lparr>self_scheduler :=
                                        Some (scheduler_step E sch (jnp_mean (kl_divergences locals)))\<rparr>
                 | None \<Rightarrow> self)
           else self,
           locals)))"

text \<open>\<^verbatim>\<open>for epoch in range(self._learning_epochs)\<close>, over the epochs still to come.\<close>

fun epochs_loop ::
  "('x, 'obj) collaborators \<Rightarrow> 'x minibatch list \<Rightarrow> nat list \<Rightarrow> ('x, 'obj) agent \<times> update_locals \<Rightarrow>
   py_error + (('x, 'obj) agent \<times> update_locals)" where
  "epochs_loop E sampled_batches [] st = Inr st"
| "epochs_loop E sampled_batches (epoch # epochs) st =
     bind_res (learning_epoch E sampled_batches epoch st) (epochs_loop E sampled_batches epochs)"

text \<open>
  \<^verbatim>\<open>PPO._update\<close>, in the three parts that its comments name. First ``compute returns and
  advantages'' and ``sample mini-batches from memory'' (lines 440 to 461): the agent
  afterwards and the sampled batches. Without a memory, or before any transition was
  recorded, the first method call on \<open>None\<close> raises.
\<close>

definition update_returns ::
  "('x, 'obj) collaborators \<Rightarrow> ('x, 'obj) agent \<Rightarrow>
   py_error + (('x, 'obj) agent \<times> 'x minibatch list)" where
  "update_returns E self =
     (let self = self\<lparr>self_value := model_set_training E False (self_value self)\<rparr> in
      case self_current_next_states self of None \<Rightarrow> Inl TypeError | Some next_states_cached \<Rightarrow>
      case preprocess_states E (self_state_preprocessor self) next_states_cached False
        of (x, spp) \<Rightarrow>
      case model_act_value E (self_value self) x of (last_values, value) \<Rightarrow>
      let self = self\<lparr>self_state_preprocessor := spp,
                      self_value := model_set_training E True value\<rparr> in
      case preprocess_values E (self_value_preprocessor self) last_values False True
        of (last_values, vpp) \<Rightarrow>
      let self = self\<lparr>self_value_preprocessor := vpp\<rparr> in
      case self_memory self of None \<Rightarrow> Inl AttributeError | Some memory \<Rightarrow>
      let values_tensor = get_tensor_by_name E memory ''values'' in
      bind_res (compute_gae (get_tensor_by_name E memory ''rewards'') (get_terminated E memory)
                  values_tensor last_values (self_discount_factor self) (self_lambda self))
        (\<lambda>(returns, advantages).
      case preprocess_tensor E (self_value_preprocessor self) values_tensor True False
        of (values_tensor, vpp) \<Rightarrow>
      let memory = set_tensor_by_name E ''values'' values_tensor memory in
      case preprocess_tensor E vpp returns True False of (returns, vpp) \<Rightarrow>
      let memory = set_tensor_by_name E ''returns'' returns memory;
          memory = set_tensor_by_name E ''advantages'' advantages memory;
          self = self\<lparr>self_value_preprocessor := vpp, self_memory := Some memory\<rparr>
      in Inr (self, sample_all E memory (self_tensors_names self) (self_mini_batches self))))"

text \<open>
  Last ``record data'' (lines 535 to 544). The division of a Python number by
  \<^verbatim>\<open>self._learning_epochs * self._mini_batches\<close> raises when that product is zero, and
  \<^verbatim>\<open>self.scheduler._lr\<close> raises when there is no scheduler object.
\<close>

definition update_record_data ::
  "('x, 'obj) collaborators \<Rightarrow> ('x, 'obj) agent \<times> update_locals \<Rightarrow> py_error + ('x, 'obj) agent" where
  "update_record_data E st =
     (case st of (self, locals) \<Rightarrow>
      if self_learning_epochs self * self_mini_batches self = 0 then Inl ZeroDivisionError
      else
        let n = real (self_learning_epochs self * self_mini_batches self);
            self = self\<lparr>self_base := track_data E ''Loss / Policy loss''
                                         (cumulative_policy_loss locals / n) (self_base self)\<rparr>;
            self = self\<lparr>self_base := track_data E ''Loss / Value loss''
                                         (cumulative_value_loss locals / n) (self_base self)\<rparr>;
            self = (if self_entropy_loss_scale self \<noteq> 0
                    then self\<lparr>self_base := track_data E ''Loss / Entropy loss''
                                                (cumulative_entropy_loss locals / n) (self_base self)\<rparr>
                    else self)
        in if self_learning_rate_scheduler self \<noteq> None
           then (case self_scheduler self of
                   None \<Rightarrow> Inl AttributeError
                 | Some sch \<Rightarrow>
                     Inr (self\<lparr>self_base := track_data E ''Learning / Learning rate''
                                                (scheduler_lr E sch) (self_base self)\<rparr>))
           else Inr self)"

text \<open>The whole of \<^verbatim>\<open>PPO._update\<close>: the cumulative losses start at 0.\<close>

definition PPO_update ::
  "('x, 'obj) collaborators \<Rightarrow> int \<Rightarrow> int \<Rightarrow> ('x, 'obj) agent \<Rightarrow> py_error + ('x, 'obj) agent" where
  "PPO_update E timestep timesteps self =
     bind_res (update_returns E self) (\<lambda>(self, sampled_batches).
     bind_res (epochs_loop E sampled_batches [0..<self_learning_epochs self]
                 (self, \<lparr>cumulative_policy_loss = 0, cumulative_entropy_loss = 0,
                         cumulative_value_loss = 0, kl_divergences = []\<rparr>))
       (update_record_data E))"

section \<open>A small instance\<close>

text \<open>
  Collaborators simple enough to run by hand. Arrays of states are lists of reals and every
  object is a list: a memory is the list of the \<^verbatim>\<open>log_prob\<close> arguments it was given (the
  latest first), an optimizer grows by one entry with every step, a scheduler records the
  value of every step. The policy's log-probabilities and the value model's values are the
  states themselves, and the preprocessors are the identity.
\<close>

definition example_collaborators :: "(real list, real list option list) collaborators" where
  "example_collaborators =
     \<lparr>preprocess_states = (\<lambda>pp x train. (x, pp)),
      preprocess_values = (\<lambda>pp x train inverse. (x, pp)),
      preprocess_tensor = (\<lambda>pp x train inverse. (x, pp)),
      model_random_act = (\<lambda>m x. ([], m)),
      model_act_policy = (\<lambda>m x. ((x, x, []), m)),
      model_act_value = (\<lambda>m x. (x, m)),
      model_log_prob = (\<lambda>m params x a. x),
      model_values = (\<lambda>m params x. x),
      model_params = (\<lambda>m. m),
      model_set_training = (\<lambda>b m. m),
      model_get_entropy = (\<lambda>m. []),
      grad_policy = (\<lambda>f p. []),
      grad_value = (\<lambda>f p. []),
      optimizer_step = (\<lambda>opt grad model lr. (None # opt, model)),
      scheduler_step = (\<lambda>sch kl. Some [kl] # sch),
      scheduler_lr = (\<lambda>sch. 1 / 1000),
      add_samples = (\<lambda>sample memory. kw_log_prob sample # memory),
      get_tensor_by_name = (\<lambda>memory name. []),
      get_terminated = (\<lambda>memory. []),
      set_tensor_by_name = (\<lambda>name tensor memory. memory),
      sample_all = (\<lambda>memory names mini_batches. []),
      super_record_transition = (\<lambda>s a r n te tr infos timestep timesteps base. base),
      track_data = (\<lambda>label v base. base)\<rparr>"

text \<open>
  An agent that was just initialised, with ten random time steps, a KL threshold of
  \<open>1/10\<close>, the KL-adaptive scheduler, a memory and one secondary memory.
\<close>

definition example_agent :: "(real list, real list option list) agent" where
  "example_agent =
     \<lparr>self_policy = [],
      self_value = [],
      self_policy_optimizer = [],
      self_value_optimizer = [],
      self_scheduler = Some [],
      self_state_preprocessor = [],
      self_value_preprocessor = [],
      self_memory = Some [],
      self_secondary_memories = [[]],
      self_base = [],
      self_tensors_names =
        [''states'', ''actions'', ''log_prob'', ''values'', ''returns'', ''advantages''],
      self_learning_epochs = 8,
      self_mini_batches = 2,
      self_rollouts = 16,
      self_rollout = 0,
      self_grad_norm_clip = 1 / 2,
      self_ratio_clip = 2 / 10,
      self_value_clip = 2 / 10,
      self_clip_predicted_values = False,
      self_value_loss_scale = 1,
      self_entropy_loss_scale = 0,
      self_kl_threshold = 1 / 10,
      self_learning_rate_scheduler = Some ''KLAdaptiveRL'',
      self_discount_factor = 99 / 100,
      self_lambda = 95 / 100,
      self_random_timesteps = 10,
      self_learning_starts = 0,
      self_rewards_shaper = None,
      self_current_log_prob = None,
      self_current_next_states = None\<rparr>"

text \<open>
  Two minibatches of one sample each: on the first the new log-probability equals the old
  one (KL divergence 0), on the second it is larger by 1 (KL divergence \<open>e - 2\<close>).
\<close>

definition batch_same :: "real list minibatch" where
  "batch_same = \<lparr>mb_states = [0], mb_actions = [0], mb_log_prob = [0], mb_values = [0],
                  mb_returns = [0], mb_advantages = [0]\<rparr>"

definition batch_far :: "real list minibatch" where
  "batch_far = \<lparr>mb_states = [1], mb_actions = [0], mb_log_prob = [0], mb_values = [0],
                 mb_returns = [0], mb_advantages = [0]\<rparr>"

definition zero_locals :: update_locals where
  "zero_locals = \<lparr>cumulative_policy_loss = 0, cumulative_entropy_loss = 0,
                   cumulative_value_loss = 0, kl_divergences = []\<rparr>"

section \<open>Properties of the advantage estimator\<close>

lemma has_shape_nth: "has_shape T N A \<Longrightarrow> i < T \<Longrightarrow> length (A ! i) = N"
  by (simp add: has_shape_def list_all_length)

lemma has_shape_update: "has_shape T N A \<Longrightarrow> length row = N \<Longrightarrow> has_shape T N (A[i := row])"
  by (cases "i < length A") (auto simp: has_shape_def list_all_length nth_list_update)

lemma np_broadcast2_nth:
  assumes "length xs = N" and "length ys = N \<or> ys = [c]"
  shows "np_broadcast2 f xs ys
         = Inr (map (\<lambda>j. f (xs ! j) (if length ys = N then ys ! j else c)) [0..<N])"
proof (cases "length ys = N")
  case True
  with assms(1) have "map2 f xs ys = map (\<lambda>j. f (xs ! j) (ys ! j)) [0..<N]"
    by (intro nth_equalityI) simp_all
  with True assms(1) show ?thesis by (simp add: np_broadcast2_def)
next
  case False
  with assms have ys: "ys = [c]" and N: "N \<noteq> 1" by auto
  have "map (\<lambda>x. f x c) xs = map (\<lambda>j. f (xs ! j) c) [0..<N]"
    using assms(1) by (intro nth_equalityI) simp_all
  with ys N assms(1) False show ?thesis by (simp add: np_broadcast2_def)
qed

lemma np_broadcast2_same:
  assumes "length xs = N" and "length ys = N"
  shows "np_broadcast2 f xs ys = Inr (map (\<lambda>j. f (xs ! j) (ys ! j)) [0..<N])"
  using np_broadcast2_nth [OF assms(1), of ys undefined f] assms(2) by simp

lemma gae_step_ok:
  assumes R: "has_shape T N rewards" and V: "has_shape T N values" and D: "has_shape T N not_dones"
    and A: "has_shape T N advantages" and i: "i < T" and nv: "length next_values = N"
    and adv: "length advantage = N \<or> advantage = [0]"
  shows "gae_step rewards values not_dones T \<gamma> l i (next_values, advantage, advantages)
         = Inr (if i < T - 1 then values ! (i + 1) else next_values,
                map (\<lambda>j. rewards ! i ! j - values ! i ! j
                       + \<gamma> * of_bool (not_dones ! i ! j)
                         * ((if i < T - 1 then values ! (i + 1) else next_values) ! j
                            + l * (if length advantage = N then advantage ! j else 0))) [0..<N],
                advantages[i := map (\<lambda>j. rewards ! i ! j - values ! i ! j
                       + \<gamma> * of_bool (not_dones ! i ! j)
                         * ((if i < T - 1 then values ! (i + 1) else next_values) ! j
                            + l * (if length advantage = N then advantage ! j else 0))) [0..<N]])"
proof -
  define nv' where "nv' = (if i < T - 1 then values ! (i + 1) else next_values)"
  have lT: "length rewards = T" "length values = T" "length not_dones = T" "length advantages = T"
    using R V D A by (simp_all add: has_shape_def)
  have lr: "length (rewards ! i) = N" "length (values ! i) = N" "length (not_dones ! i) = N"
    "length (advantages ! i) = N"
    using R V D A i by (simp_all add: has_shape_nth)
  have lnv': "length nv' = N"
    using nv V i by (simp add: nv'_def has_shape_nth)
  have g1: "(if i < T - 1 then np_get values (i + 1) else Inr next_values) = Inr nv'"
    using i lT by (auto simp: nv'_def np_get_def)
  have g2: "np_get rewards i = Inr (rewards ! i)" "np_get values i = Inr (values ! i)"
    "np_get not_dones i = Inr (not_dones ! i)"
    using i lT by (simp_all add: np_get_def)
  have b1: "np_broadcast2 (-) (rewards ! i) (values ! i)
            = Inr (map (\<lambda>j. rewards ! i ! j - values ! i ! j) [0..<N])"
    using lr by (rule_tac np_broadcast2_same) simp_all
  have adv': "length (map ((*) l) advantage) = N \<or> map ((*) l) advantage = [0]"
    using adv by auto
  have b2: "np_broadcast2 (+) nv' (map ((*) l) advantage)
            = Inr (map (\<lambda>j. nv' ! j + l * (if length advantage = N then advantage ! j else 0)) [0..<N])"
    using np_broadcast2_nth [OF lnv' adv', of "(+)"] by (auto intro!: nth_equalityI)
  have b3: "np_broadcast2 (*) (map (\<lambda>b. \<gamma> * of_bool b) (not_dones ! i))
              (map (\<lambda>j. nv' ! j + l * (if length advantage = N then advantage ! j else 0)) [0..<N])
            = Inr (map (\<lambda>j. \<gamma> * of_bool (not_dones ! i ! j)
                     * (nv' ! j + l * (if length advantage = N then advantage ! j else 0))) [0..<N])"
    using lr by (subst np_broadcast2_same [where N = N]) simp_all
  have b4: "np_broadcast2 (+) (map (\<lambda>j. rewards ! i ! j - values ! i ! j) [0..<N])
              (map (\<lambda>j. \<gamma> * of_bool (not_dones ! i ! j)
                     * (nv' ! j + l * (if length advantage = N then advantage ! j else 0))) [0..<N])
            = Inr (map (\<lambda>j. rewards ! i ! j - values ! i ! j + \<gamma> * of_bool (not_dones ! i ! j)
                     * (nv' ! j + l * (if length advantage = N then advantage ! j else 0))) [0..<N])"
    by (subst np_broadcast2_same [where N = N]) simp_all
  define adv' where "adv' = map (\<lambda>j. rewards ! i ! j - values ! i ! j + \<gamma> * of_bool (not_dones ! i ! j)
                     * (nv' ! j + l * (if length advantage = N then advantage ! j else 0))) [0..<N]"
  have s: "np_setitem advantages i adv' = Inr (advantages[i := adv'])"
    using i lT lr by (simp add: np_setitem_def adv'_def)
  have "gae_step rewards values not_dones T \<gamma> l i (next_values, advantage, advantages)
        = Inr (nv', adv', advantages[i := adv'])"
    unfolding gae_step_def prod.case g1 g2 bind_res_def sum.case b1 b2 b3 b4 adv'_def [symmetric] s
    by (rule refl)
  then show ?thesis
    unfolding adv'_def nv'_def .
qed


lemma gae_step_inv:
  assumes R: "has_shape T N rewards" and V: "has_shape T N values" and D: "has_shape T N not_dones"
    and i: "i < T" and inv: "gae_inv rewards values not_dones next_values T N \<gamma> l (Suc i) st"
  shows "\<exists>st'. gae_step rewards values not_dones T \<gamma> l i st = Inr st'
               \<and> gae_inv rewards values not_dones next_values T N \<gamma> l i st'"
proof -
  obtain nv adv advs where st: "st = (nv, adv, advs)" by (cases st)
  from inv st have A: "has_shape T N advs" and nv: "length nv = N"
    and first: "Suc i = T \<Longrightarrow> nv = next_values \<and> adv = [0]"
    and later: "Suc i \<noteq> T \<Longrightarrow> adv = advs ! Suc i"
    and old: "\<And>i' j. Suc i \<le> i' \<Longrightarrow> i' < T \<Longrightarrow> j < N \<Longrightarrow> advs ! i' ! j =
              rewards ! i' ! j - values ! i' ! j + \<gamma> * of_bool (not_dones ! i' ! j)
                * ((if i' < T - 1 then values ! (i' + 1) ! j else next_values ! j)
                   + l * (if i' < T - 1 then advs ! (i' + 1) ! j else 0))"
    by (auto simp: gae_inv_def split: if_splits)
  have lA: "length advs = T" using A by (simp add: has_shape_def)
  have adv: "length adv = N \<or> adv = [0]"
  proof (cases "Suc i = T")
    case True then show ?thesis using first by simp
  next
    case False
    with i have "Suc i < T" by simp
    with A later [OF False] show ?thesis by (simp add: has_shape_nth)
  qed
  define nv' where "nv' = (if i < T - 1 then values ! (i + 1) else nv)"
  define adv' where "adv' = map (\<lambda>j. rewards ! i ! j - values ! i ! j
                       + \<gamma> * of_bool (not_dones ! i ! j)
                         * (nv' ! j + l * (if length adv = N then adv ! j else 0))) [0..<N]"
  have step: "gae_step rewards values not_dones T \<gamma> l i st = Inr (nv', adv', advs[i := adv'])"
    unfolding st nv'_def adv'_def by (rule gae_step_ok [OF R V D A i nv adv])
  have lnv': "length nv' = N"
    using nv V i by (simp add: nv'_def has_shape_nth)
  have acc: "(if length adv = N then adv ! j else 0) = (if i < T - 1 then advs ! (i + 1) ! j else 0)"
    if "j < N" for j
  proof (cases "Suc i = T")
    case True
    then have "adv = [0]" "\<not> i < T - 1" using first by auto
    with that show ?thesis by (cases j) auto
  next
    case False
    with i have lt: "Suc i < T" by simp
    with A later [OF False] have "length adv = N" by (simp add: has_shape_nth)
    moreover from lt have "i < T - 1" by simp
    ultimately show ?thesis using later [OF False] by simp
  qed
  have nvj: "nv' ! j = (if i < T - 1 then values ! (i + 1) ! j else next_values ! j)" for j
    using first i by (auto simp: nv'_def)
  have new: "advs[i := adv'] ! i ! j =
              rewards ! i ! j - values ! i ! j + \<gamma> * of_bool (not_dones ! i ! j)
                * ((if i < T - 1 then values ! (i + 1) ! j else next_values ! j)
                   + l * (if i < T - 1 then advs[i := adv'] ! (i + 1) ! j else 0))"
    if "j < N" for j
  proof -
    have e1: "advs[i := adv'] ! i = adv'" using i lA by simp
    have e2: "advs[i := adv'] ! (i + 1) = advs ! (i + 1)" by simp
    have e3: "adv' ! j = rewards ! i ! j - values ! i ! j + \<gamma> * of_bool (not_dones ! i ! j)
                * (nv' ! j + l * (if length adv = N then adv ! j else 0))"
      using that by (simp add: adv'_def)
    show ?thesis unfolding e1 e2 e3 acc [OF that] nvj by (rule refl)
  qed
  have "gae_inv rewards values not_dones next_values T N \<gamma> l i (nv', adv', advs[i := adv'])"
    unfolding gae_inv_def prod.case
  proof (intro conjI allI impI)
    show "has_shape T N (advs[i := adv'])"
      by (rule has_shape_update [OF A]) (simp add: adv'_def)
    show "length nv' = N" by (rule lnv')
    show "if i = T then nv' = next_values \<and> adv' = [0] else adv' = advs[i := adv'] ! i"
      using i lA by simp
  next
    fix i' j assume i': "i \<le> i' \<and> i' < T" and j: "j < N"
    show "advs[i := adv'] ! i' ! j =
         rewards ! i' ! j - values ! i' ! j + \<gamma> * of_bool (not_dones ! i' ! j)
           * ((if i' < T - 1 then values ! (i' + 1) ! j else next_values ! j)
              + l * (if i' < T - 1 then advs[i := adv'] ! (i' + 1) ! j else 0))"
    proof (cases "i' = i")
      case True
      then show ?thesis using new [OF j] by simp
    next
      case False
      with i' have le: "Suc i \<le> i'" "i' < T" by simp_all
      then have "advs[i := adv'] ! i' = advs ! i'" "advs[i := adv'] ! (i' + 1) = advs ! (i' + 1)"
        by simp_all
      then show ?thesis using old [OF le j] by (simp only:)
    qed
  qed
  with step show ?thesis by blast
qed

lemma gae_loop_inv:
  assumes R: "has_shape T N rewards" and V: "has_shape T N values" and D: "has_shape T N not_dones"
  shows "k \<le> T \<Longrightarrow> gae_inv rewards values not_dones next_values T N \<gamma> l k st \<Longrightarrow>
         \<exists>st'. gae_loop rewards values not_dones T \<gamma> l k st = Inr st'
               \<and> gae_inv rewards values not_dones next_values T N \<gamma> l 0 st'"
proof (induction k arbitrary: st)
  case 0
  then show ?case by simp
next
  case (Suc k)
  then have k: "k < T" by simp
  from gae_step_inv [OF R V D k Suc.prems(2)] obtain st1
    where s1: "gae_step rewards values not_dones T \<gamma> l k st = Inr st1"
      and i1: "gae_inv rewards values not_dones next_values T N \<gamma> l k st1" by blast
  from Suc.IH [OF _ i1] k obtain st'
    where "gae_loop rewards values not_dones T \<gamma> l k st1 = Inr st'"
      and "gae_inv rewards values not_dones next_values T N \<gamma> l 0 st'" by auto
  with s1 show ?case by (simp add: bind_res_def)
qed

lemma has_shape_map: "has_shape T N A \<Longrightarrow> has_shape T N (map (map f) A)"
  by (simp add: has_shape_def list_all_length)

lemma gae_advantages_ok:
  assumes "has_shape T N rewards" and "has_shape T N dones" and "has_shape T N values"
    and "length next_values = N"
  shows "\<exists>advantages.
           gae_advantages rewards dones values next_values discount_factor lambda_coefficient
             = Inr advantages
           \<and> has_shape T N advantages
           \<and> (\<forall>i<T. \<forall>j<N. advantages ! i ! j =
                 rewards ! i ! j - values ! i ! j
                 + discount_factor * (1 - of_bool (dones ! i ! j))
                   * ((if i < T - 1 then values ! (i + 1) ! j else next_values ! j)
                      + lambda_coefficient * (if i < T - 1 then advantages ! (i + 1) ! j else 0)))"
proof -
  let ?nd = "map (map Not) dones"
  let ?z = "map (map (\<lambda>_. 0::real)) rewards"
  have D: "has_shape T N ?nd" and Z: "has_shape T N ?z"
    using assms by (simp_all add: has_shape_map)
  have T: "length rewards = T" "length dones = T" using assms by (simp_all add: has_shape_def)
  have "gae_inv rewards values ?nd next_values T N discount_factor lambda_coefficient T
          (next_values, [0], ?z)"
    using Z assms(4) by (simp add: gae_inv_def)
  from gae_loop_inv [OF assms(1) assms(3) D le_refl this] obtain nv adv advs
    where loop: "gae_loop rewards values ?nd T discount_factor lambda_coefficient T
                   (next_values, [0], ?z) = Inr (nv, adv, advs)"
      and inv: "gae_inv rewards values ?nd next_values T N discount_factor lambda_coefficient 0
                  (nv, adv, advs)"
    by (metis prod_cases3)
  have res: "gae_advantages rewards dones values next_values discount_factor lambda_coefficient
             = Inr advs"
    using loop by (simp add: gae_advantages_def T bind_res_def)
  have nd: "of_bool (?nd ! i ! j) = (1::real) - of_bool (dones ! i ! j)" if "i < T" "j < N" for i j
    using that assms(2) T by (simp add: has_shape_nth)
  from inv have "has_shape T N advs"
    and "\<And>i j. i < T \<Longrightarrow> j < N \<Longrightarrow> advs ! i ! j =
            rewards ! i ! j - values ! i ! j + discount_factor * of_bool (?nd ! i ! j)
              * ((if i < T - 1 then values ! (i + 1) ! j else next_values ! j)
                 + lambda_coefficient * (if i < T - 1 then advs ! (i + 1) ! j else 0))"
    by (simp_all add: gae_inv_def)
  with res nd show ?thesis by simp
qed

lemma sequence_res_map2:
  "length A = length B \<Longrightarrow> \<forall>i<length A. length (A ! i) = length (B ! i) \<Longrightarrow>
   sequence_res (map2 (np_broadcast2 f) A B) = Inr (map2 (map2 f) A B)"
proof (induction A B rule: list_induct2)
  case Nil
  then show ?case by simp
next
  case (Cons a A b B)
  from Cons.prems have "length a = length b" by (metis length_Cons nth_Cons_0 zero_less_Suc)
  moreover from Cons.prems have "\<forall>i<length A. length (A ! i) = length (B ! i)" by fastforce
  ultimately show ?case using Cons.IH by (simp add: bind_res_def np_broadcast2_def)
qed

lemma np_broadcast2_rows_same:
  assumes "has_shape T N A" and "has_shape T N B"
  shows "np_broadcast2_rows f A B = Inr (map2 (map2 f) A B)"
proof -
  from assms have "length A = length B" "\<forall>i<length A. length (A ! i) = length (B ! i)"
    by (simp_all add: has_shape_def list_all_length)
  then show ?thesis by (simp add: np_broadcast2_rows_def sequence_res_map2)
qed

lemma compute_gae_returns_ok:
  assumes "has_shape T N rewards" and "has_shape T N dones" and "has_shape T N values"
    and "length next_values = N"
  shows "\<exists>raw returns advantages.
           gae_advantages rewards dones values next_values discount_factor lambda_coefficient
             = Inr raw
           \<and> compute_gae rewards dones values next_values discount_factor lambda_coefficient
             = Inr (returns, advantages)
           \<and> has_shape T N returns
           \<and> (\<forall>i<T. \<forall>j<N. returns ! i ! j = raw ! i ! j + values ! i ! j)"
proof -
  from gae_advantages_ok [OF assms] obtain raw
    where raw: "gae_advantages rewards dones values next_values discount_factor lambda_coefficient
                = Inr raw"
      and sh: "has_shape T N raw" by blast
  let ?returns = "map2 (map2 (+)) raw values"
  have add: "np_broadcast2_rows (+) raw values = Inr ?returns"
    by (rule np_broadcast2_rows_same [OF sh assms(3)])
  have l: "length raw = T" "length values = T"
    "\<And>i. i < T \<Longrightarrow> length (raw ! i) = N" "\<And>i. i < T \<Longrightarrow> length (values ! i) = N"
    using sh assms(3) by (simp_all add: has_shape_def list_all_length)
  have "has_shape T N ?returns"
    using l by (simp add: has_shape_def list_all_length)
  moreover have "\<forall>i<T. \<forall>j<N. ?returns ! i ! j = raw ! i ! j + values ! i ! j"
    using l by simp
  moreover have "\<exists>advantages.
      compute_gae rewards dones values next_values discount_factor lambda_coefficient
      = Inr (?returns, advantages)"
    by (simp add: compute_gae_def raw add bind_res_def Let_def)
  ultimately show ?thesis using raw by blast
qed

lemma concat_map_map: "concat (map (map f) A) = map f (concat A)"
  by (induction A) simp_all

lemma np_mean_map: "np_mean (map (map f) A) = sum_list (map f (concat A)) / real (length (concat A))"
  by (simp add: np_mean_def concat_map_map)

lemma sum_list_affine:
  "sum_list (map (\<lambda>x. (x - m) / d) xs) = (sum_list xs - real (length xs) * m) / (d::real)"
  by (induction xs) (simp_all add: add_divide_distrib [symmetric] algebra_simps)

lemma sum_list_scaled_sq:
  "sum_list (map (\<lambda>x. ((x - m) / d) ^ 2) xs) = sum_list (map (\<lambda>x. (x - m) ^ 2) xs) / (d::real) ^ 2"
  by (induction xs) (simp_all add: add_divide_distrib power_divide)

lemma np_std_nonneg: "0 \<le> np_std A"
proof -
  have "0 \<le> sum_list (map (\<lambda>x. \<bar>x - np_mean A\<bar> ^ 2) (concat A))"
    by (rule sum_list_nonneg) auto
  then show ?thesis by (simp add: np_std_def np_mean_map)
qed

lemma normalize_mean:
  assumes "concat A \<noteq> []"
  shows "np_mean (normalize A) = 0"
proof -
  have n: "real (length (concat A)) \<noteq> 0" using assms by simp
  have "sum_list (concat A) - real (length (concat A)) * np_mean A = 0"
    using n by (simp add: np_mean_def)
  then show ?thesis
    by (simp add: normalize_def np_mean_map sum_list_affine)
qed

lemma normalize_std:
  assumes "concat A \<noteq> []"
  shows "np_std (normalize A) = np_std A / (np_std A + 1 / 10 ^ 8)"
proof -
  let ?d = "np_std A + 1 / 10 ^ 8"
  have d: "0 < ?d" using np_std_nonneg [of A] by (simp add: add_nonneg_pos)
  have "np_std (normalize A)
        = sqrt (sum_list (map (\<lambda>y. \<bar>y - 0\<bar> ^ 2) (concat (normalize A))) / real (length (concat (normalize A))))"
    unfolding np_std_def [of "normalize A"] normalize_mean [OF assms] np_mean_map ..
  also have "\<dots> = sqrt (sum_list (map (\<lambda>x. ((x - np_mean A) / ?d) ^ 2) (concat A)) / real (length (concat A)))"
    by (simp add: normalize_def concat_map_map comp_def)
  also have "\<dots> = sqrt (np_mean (map (map (\<lambda>x. \<bar>x - np_mean A\<bar> ^ 2)) A) / ?d ^ 2)"
    by (simp add: sum_list_scaled_sq np_mean_map)
  also have "\<dots> = np_std A / ?d"
    using d by (simp add: real_sqrt_divide np_std_def)
  finally show ?thesis .
qed

lemma normalize_const:
  assumes "\<forall>x \<in> set (concat A). x = c" and "i < length A" and "j < length (A ! i)"
  shows "normalize A ! i ! j = 0"
proof -
  have xs: "concat A = replicate (length (concat A)) c"
    using assms(1) by (simp add: replicate_length_same)
  have "A ! i ! j \<in> set (concat A)" using assms(2,3) by (auto intro!: bexI [of _ "A ! i"])
  with assms(1) have aij: "A ! i ! j = c" by blast
  from \<open>A ! i ! j \<in> set (concat A)\<close> have ne: "concat A \<noteq> []" by (metis empty_iff empty_set)
  have "sum_list (concat A) = real (length (concat A)) * c"
    by (subst xs) (simp add: sum_list_replicate)
  with ne have "np_mean A = c" by (simp add: np_mean_def)
  with aij assms(2,3) show ?thesis by (simp add: normalize_def)
qed

lemma compute_gae_normalize:
  "compute_gae rewards dones values next_values discount_factor lambda_coefficient =
     bind_res (gae_advantages rewards dones values next_values discount_factor lambda_coefficient)
       (\<lambda>raw. bind_res (np_broadcast2_rows (+) raw values) (\<lambda>returns. Inr (returns, normalize raw)))"
  by (simp add: compute_gae_def normalize_def Let_def)

lemma has_shape_concat: "has_shape T N A \<Longrightarrow> 0 < T \<Longrightarrow> 0 < N \<Longrightarrow> concat A \<noteq> []"
  by (cases A) (auto simp: has_shape_def)

lemma has_shape_const:
  assumes sh: "has_shape T N A" and c: "\<forall>i<T. \<forall>j<N. A ! i ! j = c"
  shows "\<forall>x \<in> set (concat A). x = c"
proof
  fix x assume "x \<in> set (concat A)"
  then obtain row where row: "row \<in> set A" and x: "x \<in> set row" by auto
  from row obtain i where i: "i < length A" and r: "row = A ! i" by (metis in_set_conv_nth)
  from x obtain j where j: "j < length row" and xj: "x = row ! j" by (metis in_set_conv_nth)
  from sh i have iT: "i < T" by (simp add: has_shape_def)
  from sh i r have "length row = N" by (simp add: has_shape_def list_all_length)
  with j have jN: "j < N" by simp
  from c iT jN have "A ! i ! j = c" by blast
  with r xj show "x = c" by simp
qed

lemma compute_gae_normalisation_ok:
  assumes "has_shape T N rewards" and "has_shape T N dones" and "has_shape T N values"
    and "length next_values = N" and "0 < T" and "0 < N"
  shows "\<exists>raw returns advantages.
           gae_advantages rewards dones values next_values discount_factor lambda_coefficient
             = Inr raw
           \<and> compute_gae rewards dones values next_values discount_factor lambda_coefficient
             = Inr (returns, advantages)
           \<and> advantages = map (map (\<lambda>x. (x - np_mean raw) / (np_std raw + 1 / 10 ^ 8))) raw
           \<and> 0 < np_std raw + 1 / 10 ^ 8
           \<and> np_mean advantages = 0
           \<and> np_std advantages = np_std raw / (np_std raw + 1 / 10 ^ 8)
           \<and> np_std advantages < 1
           \<and> ((\<forall>i<T. \<forall>j<N. raw ! i ! j = raw ! 0 ! 0) \<longrightarrow> (\<forall>i<T. \<forall>j<N. advantages ! i ! j = 0))"
proof -
  from gae_advantages_ok [OF assms(1-4)] obtain raw
    where raw: "gae_advantages rewards dones values next_values discount_factor lambda_coefficient
                = Inr raw"
      and sh: "has_shape T N raw" by blast
  define returns where "returns = map2 (map2 (+)) raw values"
  define advantages where "advantages = normalize raw"
  have add: "np_broadcast2_rows (+) raw values = Inr returns"
    unfolding returns_def by (rule np_broadcast2_rows_same [OF sh assms(3)])
  have res: "compute_gae rewards dones values next_values discount_factor lambda_coefficient
             = Inr (returns, advantages)"
    unfolding compute_gae_normalize raw bind_res_def sum.case add advantages_def by (rule refl)
  have ne: "concat raw \<noteq> []" by (rule has_shape_concat [OF sh assms(5,6)])
  have pos: "0 < np_std raw + 1 / 10 ^ 8"
    using np_std_nonneg [of raw] by (simp add: add_nonneg_pos)
  have m: "np_mean advantages = 0" unfolding advantages_def by (rule normalize_mean [OF ne])
  have s: "np_std advantages = np_std raw / (np_std raw + 1 / 10 ^ 8)"
    unfolding advantages_def by (rule normalize_std [OF ne])
  have lt: "np_std advantages < 1"
    unfolding s using pos by simp
  have a: "advantages = map (map (\<lambda>x. (x - np_mean raw) / (np_std raw + 1 / 10 ^ 8))) raw"
    unfolding advantages_def normalize_def ..
  have l: "length raw = T" "\<And>i. i < T \<Longrightarrow> length (raw ! i) = N"
    using sh by (simp_all add: has_shape_def list_all_length)
  have const: "(\<forall>i<T. \<forall>j<N. raw ! i ! j = raw ! 0 ! 0) \<longrightarrow> (\<forall>i<T. \<forall>j<N. advantages ! i ! j = 0)"
  proof (intro allI impI)
    fix i j assume c: "\<forall>i<T. \<forall>j<N. raw ! i ! j = raw ! 0 ! 0" and i: "i < T" and j: "j < N"
    have "\<forall>x \<in> set (concat raw). x = raw ! 0 ! 0" by (rule has_shape_const [OF sh c])
    moreover have "i < length raw" "j < length (raw ! i)" using i j l by simp_all
    ultimately show "advantages ! i ! j = 0"
      unfolding advantages_def by (rule normalize_const)
  qed
  from raw res a pos m s lt const show ?thesis by blast
qed

lemma gae_small_raw:
  "gae_advantages [[0], [2 / 10 ^ 8]] [[True], [True]] [[0], [0]] [0] (99 / 100) (95 / 100)
   = Inr [[0], [2 / 10 ^ 8]]"
  by (simp add: gae_advantages_def gae_step_def np_get_def np_broadcast2_def np_setitem_def
      bind_res_def)

lemma np_mean_small: "np_mean [[0], [2 / 10 ^ 8]] = 1 / 10 ^ 8"
  by (simp add: np_mean_def)

lemma np_std_small: "np_std [[0], [2 / 10 ^ 8]] = 1 / 10 ^ 8"
proof -
  have "np_mean (map (map (\<lambda>x. \<bar>x - np_mean [[0], [2 / 10 ^ 8]]\<bar> ^ 2)) [[0], [2 / 10 ^ 8]])
        = (1 / 10 ^ 8) ^ 2"
    unfolding np_mean_small by (simp add: np_mean_def)
  then have "np_std [[0], [2 / 10 ^ 8]] = sqrt ((1 / 10 ^ 8) ^ 2)"
    by (simp only: np_std_def)
  then show ?thesis
    using real_sqrt_abs [of "1 / 10 ^ 8"] by simp
qed

lemma np_std_half: "np_std [[- 1 / 2], [1 / 2]] = 1 / 2"
proof -
  have m: "np_mean [[- 1 / 2], [1 / 2]] = 0" by (simp add: np_mean_def)
  have "np_mean (map (map (\<lambda>x. \<bar>x - np_mean [[- 1 / 2], [1 / 2]]\<bar> ^ 2)) [[- 1 / 2], [1 / 2]])
        = (1 / 2) ^ 2"
    unfolding m by (simp add: np_mean_def power2_eq_square)
  then have "np_std [[- 1 / 2], [1 / 2]] = sqrt ((1 / 2) ^ 2)"
    by (simp only: np_std_def)
  then show ?thesis
    using real_sqrt_abs [of "1 / 2"] by simp
qed

lemma returns_small:
  "np_broadcast2_rows (+) [[0], [2 / 10 ^ 8]] [[0], [0::real]] = Inr [[0], [2 / 10 ^ 8]]"
  by (simp add: np_broadcast2_rows_def np_broadcast2_def bind_res_def)

lemma normalize_small: "normalize [[0], [2 / 10 ^ 8]] = [[- 1 / 2], [1 / 2]]"
  unfolding normalize_def np_mean_small np_std_small by simp

section \<open>Properties of the losses\<close>

lemma np_broadcast2_shift:
  "np_broadcast2 (-) (map (\<lambda>l. l + c) xs) (map (\<lambda>l. l + c) ys) = np_broadcast2 (-) xs (ys :: real list)"
proof -
  have "map2 (-) (map (\<lambda>l. l + c) xs) (map (\<lambda>l. l + c) ys) = map2 (-) xs ys"
    by (induction xs ys rule: list_induct2') simp_all
  moreover have "map ((-) (hd (map (\<lambda>l. l + c) xs))) (map (\<lambda>l. l + c) ys) = map ((-) (hd xs)) ys"
    if "length xs = 1"
    using that by (cases xs) simp_all
  moreover have "map (\<lambda>x. x - hd (map (\<lambda>l. l + c) ys)) (map (\<lambda>l. l + c) xs) = map (\<lambda>x. x - hd ys) xs"
    if "length ys = 1"
    using that by (cases ys) simp_all
  ultimately show ?thesis
    unfolding np_broadcast2_def by (simp del: hd_map)
qed

lemma policy_loss_shift:
  "policy_loss (\<lambda>p s a. map (\<lambda>l. l + c) (policy_act p s a)) sampled_states sampled_actions
     (map (\<lambda>l. l + c) sampled_log_prob) sampled_advantages ratio_clip
   = policy_loss policy_act sampled_states sampled_actions sampled_log_prob sampled_advantages
       ratio_clip"
  by (rule ext) (simp only: policy_loss_def Let_def np_broadcast2_shift)





section \<open>Properties of acting and recording\<close>

lemma PPO_act_random_ok:
  assumes "timestep < self_random_timesteps self"
  shows "fst (PPO_act E states_arg timestep timesteps self)
         = RandomAct (fst (model_random_act E (self_policy self)
             (fst (preprocess_states E (self_state_preprocessor self) states_arg False))))
       \<and> self_current_log_prob (snd (PPO_act E states_arg timestep timesteps self))
         = self_current_log_prob self
       \<and> self_memory (snd (PPO_act E states_arg timestep timesteps self)) = self_memory self
       \<and> self_secondary_memories (snd (PPO_act E states_arg timestep timesteps self))
         = self_secondary_memories self"
  using assms by (simp add: PPO_act_def split: prod.splits)

lemma PPO_record_transition_log_prob:
  assumes "self_memory self = Some memory"
  shows "\<exists>sample. kw_log_prob sample = self_current_log_prob self
           \<and> kw_states sample = states_arg \<and> kw_actions sample = actions_arg
           \<and> self_memory (PPO_record_transition E states_arg actions_arg rewards_arg
                 next_states_arg terminated_arg truncated_arg infos timestep timesteps self)
               = Some (add_samples E sample memory)
           \<and> self_secondary_memories (PPO_record_transition E states_arg actions_arg rewards_arg
                 next_states_arg terminated_arg truncated_arg infos timestep timesteps self)
               = map (add_samples E sample) (self_secondary_memories self)"
proof -
  obtain x spp where x: "preprocess_states E (self_state_preprocessor self) states_arg False = (x, spp)"
    by (cases "preprocess_states E (self_state_preprocessor self) states_arg False")
  obtain v val where v: "model_act_value E (self_value self) x = (v, val)"
    by (cases "model_act_value E (self_value self) x")
  obtain v' vpp where v': "preprocess_values E (self_value_preprocessor self) v False True = (v', vpp)"
    by (cases "preprocess_values E (self_value_preprocessor self) v False True")
  let ?sample = "\<lparr>kw_states = states_arg, kw_actions = actions_arg,
                  kw_rewards = (case self_rewards_shaper self of None \<Rightarrow> rewards_arg
                                | Some shaper \<Rightarrow> shaper rewards_arg timestep timesteps),
                  kw_next_states = next_states_arg, kw_terminated = terminated_arg,
                  kw_truncated = truncated_arg, kw_log_prob = self_current_log_prob self,
                  kw_values = v'\<rparr>"
  show ?thesis
    by (rule exI [of _ ?sample]) (simp add: PPO_record_transition_def Let_def assms x v v')
qed

lemma act_then_record_ok:
  assumes "timestep < self_random_timesteps self" and "self_memory self = Some memory"
  shows "fst (PPO_act E states_arg timestep timesteps self)
         = RandomAct (fst (model_random_act E (self_policy self)
             (fst (preprocess_states E (self_state_preprocessor self) states_arg False))))
       \<and> self_current_log_prob (snd (PPO_act E states_arg timestep timesteps self))
         = self_current_log_prob self
       \<and> (\<exists>sample. kw_log_prob sample = self_current_log_prob self
             \<and> kw_actions sample = actions_arg
             \<and> self_memory (PPO_record_transition E states_arg actions_arg rewards_arg
                   next_states_arg terminated_arg truncated_arg infos timestep timesteps
                   (snd (PPO_act E states_arg timestep timesteps self)))
                 = Some (add_samples E sample memory)
             \<and> self_secondary_memories (PPO_record_transition E states_arg actions_arg rewards_arg
                   next_states_arg terminated_arg truncated_arg infos timestep timesteps
                   (snd (PPO_act E states_arg timestep timesteps self)))
                 = map (add_samples E sample) (self_secondary_memories self))"
proof -
  let ?self' = "snd (PPO_act E states_arg timestep timesteps self)"
  note a = PPO_act_random_ok [OF assms(1), of E states_arg timesteps]
  from a assms(2) have m: "self_memory ?self' = Some memory" by simp
  from PPO_record_transition_log_prob [OF m, of states_arg actions_arg E rewards_arg
      next_states_arg terminated_arg truncated_arg infos timestep timesteps]
  obtain sample where "kw_log_prob sample = self_current_log_prob ?self'"
    "kw_actions sample = actions_arg"
    "self_memory (PPO_record_transition E states_arg actions_arg rewards_arg
        next_states_arg terminated_arg truncated_arg infos timestep timesteps ?self')
      = Some (add_samples E sample memory)"
    "self_secondary_memories (PPO_record_transition E states_arg actions_arg rewards_arg
        next_states_arg terminated_arg truncated_arg infos timestep timesteps ?self')
      = map (add_samples E sample) (self_secondary_memories ?self')"
    by blast
  with a show ?thesis by (intro conjI exI [of _ sample]) simp_all
qed

section \<open>Properties of the update\<close>

lemma minibatch_loop_break:
  assumes pp: "preprocess_states E (self_state_preprocessor self) (mb_states batch) (epoch = 0)
               = (x, pp)"
    and up: "update_policy (grad_policy E) (model_log_prob E (self_policy self))
               (model_params E (self_policy self)) x (mb_actions batch) (mb_log_prob batch)
               (mb_advantages batch) (self_ratio_clip self) = Inr (grad, ploss, kl)"
    and thr: "self_kl_threshold self \<noteq> 0" "kl > self_kl_threshold self"
  shows "minibatch_loop E epoch (batch # batches) (self, locals)
         = Inr (self\<lparr>self_state_preprocessor := pp\<rparr>,
                locals\<lparr>kl_divergences := kl_divergences locals @ [kl]\<rparr>)"
  using assms by (simp add: bind_res_def Let_def)

text \<open>
  One iteration of the mini-batches loop raises, or breaks, or goes on to the next batch
  from a state that does not depend on the batches to come.
\<close>

lemma minibatch_step_cases:
  obtains (error) e
    where "\<And>bs. minibatch_loop E epoch (batch # bs) (self, locals) = Inl e"
      and "\<And>bs c. minibatch_loop E epoch (batch # bs) (self\<lparr>self_grad_norm_clip := c\<rparr>, locals)
                   = Inl e"
  | (break) pp kl
    where "self_kl_threshold self \<noteq> 0" and "kl > self_kl_threshold self"
      and "\<And>bs. minibatch_loop E epoch (batch # bs) (self, locals)
                 = Inr (self\<lparr>self_state_preprocessor := pp\<rparr>,
                        locals\<lparr>kl_divergences := kl_divergences locals @ [kl]\<rparr>)"
      and "\<And>bs c. minibatch_loop E epoch (batch # bs) (self\<lparr>self_grad_norm_clip := c\<rparr>, locals)
                 = Inr (self\<lparr>self_grad_norm_clip := c, self_state_preprocessor := pp\<rparr>,
                        locals\<lparr>kl_divergences := kl_divergences locals @ [kl]\<rparr>)"
  | (continue) self1 locals1 kl
    where "\<not> (self_kl_threshold self \<noteq> 0 \<and> kl > self_kl_threshold self)"
      and "kl_divergences locals1 = kl_divergences locals @ [kl]"
      and "self_kl_threshold self1 = self_kl_threshold self"
      and "self_learning_rate_scheduler self1 = self_learning_rate_scheduler self"
      and "self_scheduler self1 = self_scheduler self"
      and "\<And>bs. minibatch_loop E epoch (batch # bs) (self, locals)
                 = minibatch_loop E epoch bs (self1, locals1)"
      and "\<And>bs c. minibatch_loop E epoch (batch # bs) (self\<lparr>self_grad_norm_clip := c\<rparr>, locals)
                 = minibatch_loop E epoch bs (self1\<lparr>self_grad_norm_clip := c\<rparr>, locals1)"
proof -
  obtain x pp where pp: "preprocess_states E (self_state_preprocessor self) (mb_states batch)
      (epoch = 0) = (x, pp)"
    by (cases "preprocess_states E (self_state_preprocessor self) (mb_states batch) (epoch = 0)")
  show ?thesis
  proof (cases "update_policy (grad_policy E) (model_log_prob E (self_policy self))
               (model_params E (self_policy self)) x (mb_actions batch) (mb_log_prob batch)
               (mb_advantages batch) (self_ratio_clip self)")
    case (Inl e)
    with pp have "\<And>bs. minibatch_loop E epoch (batch # bs) (self, locals) = Inl e"
      "\<And>bs c. minibatch_loop E epoch (batch # bs) (self\<lparr>self_grad_norm_clip := c\<rparr>, locals) = Inl e"
      by (simp_all add: bind_res_def Let_def)
    then show ?thesis by (rule error)
  next
    case (Inr r)
    obtain grad ploss kl where r: "r = (grad, ploss, kl)" by (cases r)
    show ?thesis
    proof (cases "self_kl_threshold self \<noteq> 0 \<and> kl > self_kl_threshold self")
      case True
      then have t: "self_kl_threshold self \<noteq> 0" "kl > self_kl_threshold self" by simp_all
      have "\<And>bs c. minibatch_loop E epoch (batch # bs) (self\<lparr>self_grad_norm_clip := c\<rparr>, locals)
                 = Inr (self\<lparr>self_grad_norm_clip := c, self_state_preprocessor := pp\<rparr>,
                        locals\<lparr>kl_divergences := kl_divergences locals @ [kl]\<rparr>)"
        using pp Inr r t by (simp add: bind_res_def Let_def)
      with minibatch_loop_break [OF pp Inr [unfolded r] t]
      show ?thesis using t by (rule_tac break) auto
    next
      case False
      obtain popt pol where po: "optimizer_step E (self_policy_optimizer self) grad (self_policy self)
               (case self_scheduler self of Some sch \<Rightarrow> Some (scheduler_lr E sch) | None \<Rightarrow> None)
               = (popt, pol)"
        by (cases "optimizer_step E (self_policy_optimizer self) grad (self_policy self)
               (case self_scheduler self of Some sch \<Rightarrow> Some (scheduler_lr E sch) | None \<Rightarrow> None)")
      show ?thesis
      proof (cases "update_value (grad_value E) (model_values E (self_value self))
                    (model_params E (self_value self)) x (mb_values batch)
                    (mb_returns batch) (self_value_loss_scale self)
                    (self_clip_predicted_values self) (self_value_clip self)")
        case (Inl e)
        with pp Inr r False po
        have "\<And>bs. minibatch_loop E epoch (batch # bs) (self, locals) = Inl e"
          "\<And>bs c. minibatch_loop E epoch (batch # bs) (self\<lparr>self_grad_norm_clip := c\<rparr>, locals)
                   = Inl e"
          by (auto simp: bind_res_def Let_def)
        then show ?thesis by (rule error)
      next
        case vr: (Inr rv)
        obtain vgrad vloss where rv: "rv = (vgrad, vloss)" by (cases rv)
        obtain vopt val where vo: "optimizer_step E (self_value_optimizer self) vgrad (self_value self)
               (case self_scheduler self of Some sch \<Rightarrow> Some (scheduler_lr E sch) | None \<Rightarrow> None)
               = (vopt, val)"
          by (cases "optimizer_step E (self_value_optimizer self) vgrad (self_value self)
               (case self_scheduler self of Some sch \<Rightarrow> Some (scheduler_lr E sch) | None \<Rightarrow> None)")
        define self1 where "self1 = self\<lparr>self_state_preprocessor := pp,
            self_policy_optimizer := popt, self_policy := pol,
            self_value_optimizer := vopt, self_value := val\<rparr>"
        define l0 where "l0 = locals\<lparr>kl_divergences := kl_divergences locals @ [kl],
            cumulative_policy_loss := cumulative_policy_loss locals + ploss,
            cumulative_value_loss := cumulative_value_loss locals + vloss\<rparr>"
        define locals1 where "locals1 = (if self_entropy_loss_scale self \<noteq> 0
            then l0\<lparr>cumulative_entropy_loss := cumulative_entropy_loss locals
                   + - self_entropy_loss_scale self * jnp_mean (model_get_entropy E (self_policy self))\<rparr>
            else l0)"
        have "\<And>bs. minibatch_loop E epoch (batch # bs) (self, locals)
                 = minibatch_loop E epoch bs (self1, locals1)"
          using pp Inr r False po vr rv vo
          by (auto simp: bind_res_def Let_def self1_def locals1_def l0_def)
        moreover have "\<And>bs c. minibatch_loop E epoch (batch # bs)
                   (self\<lparr>self_grad_norm_clip := c\<rparr>, locals)
                 = minibatch_loop E epoch bs (self1\<lparr>self_grad_norm_clip := c\<rparr>, locals1)"
        proof -
          fix bs c
          have eq: "self1\<lparr>self_grad_norm_clip := c\<rparr>
                = self\<lparr>self_grad_norm_clip := c, self_state_preprocessor := pp,
                    self_policy_optimizer := popt, self_policy := pol,
                    self_value_optimizer := vopt, self_value := val\<rparr>"
            by (simp add: self1_def)
          show "minibatch_loop E epoch (batch # bs) (self\<lparr>self_grad_norm_clip := c\<rparr>, locals)
                 = minibatch_loop E epoch bs (self1\<lparr>self_grad_norm_clip := c\<rparr>, locals1)"
            unfolding eq using pp Inr r False po vr rv vo
            by (auto simp: bind_res_def Let_def locals1_def l0_def)
        qed
        moreover have "kl_divergences locals1 = kl_divergences locals @ [kl]"
          by (simp add: locals1_def l0_def)
        moreover have "self_kl_threshold self1 = self_kl_threshold self"
          "self_learning_rate_scheduler self1 = self_learning_rate_scheduler self"
          "self_scheduler self1 = self_scheduler self"
          by (simp_all add: self1_def)
        ultimately show ?thesis using False by (rule_tac continue) auto
      qed
    qed
  qed
qed

lemma minibatch_loop_kls:
  "minibatch_loop E epoch batches (self, locals) = Inr (self', locals') \<Longrightarrow>
   self_kl_threshold self' = self_kl_threshold self
   \<and> self_learning_rate_scheduler self' = self_learning_rate_scheduler self
   \<and> self_scheduler self' = self_scheduler self"
proof (induction batches arbitrary: self locals)
  case Nil
  then show ?case by simp
next
  case (Cons batch batches)
  show ?case
  proof (cases rule: minibatch_step_cases [of E epoch batch self locals])
    case (error e)
    with Cons.prems show ?thesis by simp
  next
    case (break pp kl)
    with Cons.prems show ?thesis by auto
  next
    case (continue self1 locals1 kl)
    with Cons.prems have "minibatch_loop E epoch batches (self1, locals1) = Inr (self', locals')"
      by simp
    from Cons.IH [OF this] continue show ?thesis by simp
  qed
qed

lemma minibatch_loop_append:
  assumes "minibatch_loop E epoch pre (self, locals) = Inr (self1, locals1)"
    and "\<forall>k \<in> set (kl_divergences locals1). \<not> k > self_kl_threshold self"
  shows "minibatch_loop E epoch (pre @ post) (self, locals)
         = minibatch_loop E epoch post (self1, locals1)"
  using assms
proof (induction pre arbitrary: self locals)
  case Nil
  then show ?case by simp
next
  case (Cons batch pre)
  show ?case
  proof (cases rule: minibatch_step_cases [of E epoch batch self locals])
    case (error e)
    with Cons.prems show ?thesis by simp
  next
    case (break pp kl)
    with Cons.prems(1) have "kl_divergences locals1 = kl_divergences locals @ [kl]" by auto
    with Cons.prems(2) break(2) show ?thesis by auto
  next
    case (continue selfA localsA kl)
    with Cons.prems have a: "minibatch_loop E epoch pre (selfA, localsA) = Inr (self1, locals1)"
      by simp
    from Cons.prems(2) continue(3)
    have b: "\<forall>k \<in> set (kl_divergences locals1). \<not> k > self_kl_threshold selfA" by simp
    from Cons.IH [OF a b] continue(6) show ?thesis by simp
  qed
qed

lemma early_stopping_ok:
  assumes thr: "0 < self_kl_threshold self"
    and pre: "minibatch_loop E epoch pre (self, locals\<lparr>kl_divergences := []\<rparr>) = Inr (self1, locals1)"
    and nobreak: "\<forall>k \<in> set (kl_divergences locals1). \<not> k > self_kl_threshold self"
    and pp: "preprocess_states E (self_state_preprocessor self1) (mb_states batch) (epoch = 0)
             = (x, pp)"
    and up: "update_policy (grad_policy E) (model_log_prob E (self_policy self1))
               (model_params E (self_policy self1)) x (mb_actions batch) (mb_log_prob batch)
               (mb_advantages batch) (self_ratio_clip self1) = Inr (grad, ploss, kl)"
    and exceeds: "kl > self_kl_threshold self"
  shows "\<exists>self2 locals2.
           learning_epoch E (pre @ batch # rest) epoch (self, locals) = Inr (self2, locals2)
           \<and> kl_divergences locals2 = kl_divergences locals1 @ [kl]
           \<and> self_policy self2 = self_policy self1
           \<and> self_value self2 = self_value self1
           \<and> self_policy_optimizer self2 = self_policy_optimizer self1
           \<and> self_value_optimizer self2 = self_value_optimizer self1
           \<and> cumulative_policy_loss locals2 = cumulative_policy_loss locals1
           \<and> cumulative_value_loss locals2 = cumulative_value_loss locals1
           \<and> cumulative_entropy_loss locals2 = cumulative_entropy_loss locals1
           \<and> self_scheduler self2
             = (if self_learning_rate_scheduler self \<noteq> None
                then map_option
                       (\<lambda>sch. scheduler_step E sch (jnp_mean (kl_divergences locals1 @ [kl])))
                       (self_scheduler self)
                else self_scheduler self)"
proof -
  from minibatch_loop_kls [OF pre]
  have same: "self_kl_threshold self1 = self_kl_threshold self"
    "self_learning_rate_scheduler self1 = self_learning_rate_scheduler self"
    "self_scheduler self1 = self_scheduler self"
    by simp_all
  have t1: "self_kl_threshold self1 \<noteq> 0" "kl > self_kl_threshold self1"
    using thr exceeds same by simp_all
  have "minibatch_loop E epoch (pre @ batch # rest) (self, locals\<lparr>kl_divergences := []\<rparr>)
        = minibatch_loop E epoch (batch # rest) (self1, locals1)"
    by (rule minibatch_loop_append [OF pre]) (use nobreak in simp)
  also have "\<dots> = Inr (self1\<lparr>self_state_preprocessor := pp\<rparr>,
                      locals1\<lparr>kl_divergences := kl_divergences locals1 @ [kl]\<rparr>)"
    by (rule minibatch_loop_break [OF pp up t1])
  finally have loop: "minibatch_loop E epoch (pre @ batch # rest)
                        (self, locals\<lparr>kl_divergences := []\<rparr>)
      = Inr (self1\<lparr>self_state_preprocessor := pp\<rparr>,
             locals1\<lparr>kl_divergences := kl_divergences locals1 @ [kl]\<rparr>)" .
  show ?thesis
    unfolding learning_epoch_def prod.case loop bind_res_def sum.case
    using same by (cases "self_scheduler self") auto
qed

lemma minibatch_loop_grad_norm_clip:
  "minibatch_loop E epoch batches (self\<lparr>self_grad_norm_clip := c\<rparr>, locals)
   = map_sum id (\<lambda>(s, l). (s\<lparr>self_grad_norm_clip := c\<rparr>, l))
       (minibatch_loop E epoch batches (self, locals))"
proof (induction batches arbitrary: self locals)
  case Nil
  then show ?case by simp
next
  case (Cons batch batches)
  show ?case
  proof (cases rule: minibatch_step_cases [of E epoch batch self locals])
    case (error e)
    then show ?thesis by simp
  next
    case (break pp kl)
    then show ?thesis by simp
  next
    case (continue self1 locals1 kl)
    then show ?thesis by (simp add: Cons.IH)
  qed
qed

lemma learning_epoch_grad_norm_clip:
  "learning_epoch E batches epoch (self\<lparr>self_grad_norm_clip := c\<rparr>, locals)
   = map_sum id (\<lambda>(s, l). (s\<lparr>self_grad_norm_clip := c\<rparr>, l))
       (learning_epoch E batches epoch (self, locals))"
  by (cases "minibatch_loop E epoch batches (self, locals\<lparr>kl_divergences := []\<rparr>)")
    (auto simp: learning_epoch_def minibatch_loop_grad_norm_clip bind_res_def split: option.splits)

lemma epochs_loop_grad_norm_clip:
  "epochs_loop E batches epochs (self\<lparr>self_grad_norm_clip := c\<rparr>, locals)
   = map_sum id (\<lambda>(s, l). (s\<lparr>self_grad_norm_clip := c\<rparr>, l))
       (epochs_loop E batches epochs (self, locals))"
proof (induction epochs arbitrary: self locals)
  case Nil
  then show ?case by simp
next
  case (Cons epoch epochs)
  show ?case
    by (cases "learning_epoch E batches epoch (self, locals)")
      (auto simp: learning_epoch_grad_norm_clip bind_res_def Cons.IH)
qed

lemma update_returns_grad_norm_clip:
  "update_returns E (self\<lparr>self_grad_norm_clip := c\<rparr>)
   = map_sum id (\<lambda>(s, b). (s\<lparr>self_grad_norm_clip := c\<rparr>, b)) (update_returns E self)"
  by (simp add: update_returns_def Let_def bind_res_def
      split: option.splits prod.splits sum.splits)

lemma update_record_data_grad_norm_clip:
  "update_record_data E (self\<lparr>self_grad_norm_clip := c\<rparr>, locals)
   = map_sum id (\<lambda>s. s\<lparr>self_grad_norm_clip := c\<rparr>) (update_record_data E (self, locals))"
  by (simp add: update_record_data_def Let_def split: option.splits)

lemma PPO_update_grad_norm_clip_ok:
  "PPO_update E timestep timesteps (self\<lparr>self_grad_norm_clip := c\<rparr>)
   = map_sum id (\<lambda>s. s\<lparr>self_grad_norm_clip := c\<rparr>) (PPO_update E timestep timesteps self)"
proof (cases "update_returns E self")
  case (Inl e)
  then show ?thesis by (simp add: PPO_update_def update_returns_grad_norm_clip bind_res_def)
next
  case (Inr r)
  obtain self1 batches where r: "r = (self1, batches)" by (cases r)
  show ?thesis
  proof (cases "epochs_loop E batches [0..<self_learning_epochs self1]
                 (self1, \<lparr>cumulative_policy_loss = 0, cumulative_entropy_loss = 0,
                         cumulative_value_loss = 0, kl_divergences = []\<rparr>)")
    case el: (Inl e)
    with Inr r show ?thesis
      by (simp add: PPO_update_def update_returns_grad_norm_clip bind_res_def
          epochs_loop_grad_norm_clip)
  next
    case er: (Inr st)
    obtain self2 locals2 where st: "st = (self2, locals2)" by (cases st)
    from Inr r er st show ?thesis
      by (simp add: PPO_update_def update_returns_grad_norm_clip bind_res_def
          epochs_loop_grad_norm_clip update_record_data_grad_norm_clip)
  qed
qed

lemma example_first_batch:
  "minibatch_loop example_collaborators 0 [batch_same]
     (example_agent, zero_locals\<lparr>kl_divergences := []\<rparr>)
   = Inr (example_agent\<lparr>self_policy_optimizer := [None], self_value_optimizer := [None]\<rparr>,
          zero_locals\<lparr>kl_divergences := [0]\<rparr>)"
  by (simp add: example_collaborators_def example_agent_def batch_same_def zero_locals_def
      update_policy_def policy_loss_def update_value_def value_loss_def np_broadcast2_def
      jnp_mean_def jnp_clip_def bind_res_def Let_def)

lemma example_second_batch:
  "update_policy (grad_policy example_collaborators)
     (model_log_prob example_collaborators
        (self_policy (example_agent\<lparr>self_policy_optimizer := [None],
                                     self_value_optimizer := [None]\<rparr>)))
     (model_params example_collaborators
        (self_policy (example_agent\<lparr>self_policy_optimizer := [None],
                                     self_value_optimizer := [None]\<rparr>)))
     [1] (mb_actions batch_far) (mb_log_prob batch_far) (mb_advantages batch_far)
     (self_ratio_clip (example_agent\<lparr>self_policy_optimizer := [None],
                                     self_value_optimizer := [None]\<rparr>))
   = Inr ([], 0, exp 1 - 2)"
  by (simp add: example_collaborators_def example_agent_def batch_far_def
      update_policy_def policy_loss_def np_broadcast2_def jnp_mean_def bind_res_def Let_def)

lemma exp_one_minus_two: "exp (1::real) - 2 > 1 / 10"
  using exp_lower_Taylor_quadratic [of "1::real"] by simp

section \<open>The advantage estimator: claims C1 and C2\<close>

text \<open>
  Claim C1. On arrays of \<open>T\<close> time steps, \<^verbatim>\<open>compute_gae\<close> fills the advantages (before
  normalisation) by the backward recurrence: at every index \<open>i\<close> the stored value is
  \<open>reward[i] - value[i] + discount_factor * (1 - done[i]) * (next_value + lambda * advantage)\<close>,
  where \<open>next_value\<close> is \<open>value[i + 1]\<close> and \<open>advantage\<close> is the value stored at \<open>i + 1\<close>,
  except at the last index \<open>T - 1\<close>, which uses the supplied bootstrap value and the
  accumulator's seed 0. The loop raises nothing on well-shaped inputs.
\<close>

theorem gae_advantages_recurrence:
  assumes "has_shape T N rewards" and "has_shape T N dones" and "has_shape T N values"
    and "length next_values = N"
  shows "\<exists>advantages.
           gae_advantages rewards dones values next_values discount_factor lambda_coefficient
             = Inr advantages
           \<and> has_shape T N advantages
           \<and> (\<forall>i<T. \<forall>j<N. advantages ! i ! j =
                 rewards ! i ! j - values ! i ! j
                 + discount_factor * (1 - of_bool (dones ! i ! j))
                   * ((if i < T - 1 then values ! (i + 1) ! j else next_values ! j)
                      + lambda_coefficient * (if i < T - 1 then advantages ! (i + 1) ! j else 0)))"
  using assms by (rule gae_advantages_ok)

theorem gae_advantages_recurrence_witness:
  "has_shape 4 1 [[1], [1], [1], [1::real]]
   \<and> has_shape 4 1 [[False], [False], [False], [True]]
   \<and> has_shape 4 1 [[1 / 2], [1 / 2], [1 / 2], [1 / 2 :: real]]
   \<and> length [1 / 2 :: real] = 1
   \<and> (\<exists>advantages.
         gae_advantages [[1], [1], [1], [1]] [[False], [False], [False], [True]]
           [[1 / 2], [1 / 2], [1 / 2], [1 / 2]] [1 / 2] (99 / 100) (95 / 100) = Inr advantages
         \<and> has_shape 4 1 advantages
         \<and> (\<forall>i<4. \<forall>j<1. advantages ! i ! j =
               [[1], [1], [1], [1::real]] ! i ! j - [[1 / 2], [1 / 2], [1 / 2], [1 / 2]] ! i ! j
               + 99 / 100 * (1 - of_bool ([[False], [False], [False], [True]] ! i ! j))
                 * ((if i < 4 - 1 then [[1 / 2], [1 / 2], [1 / 2], [1 / 2]] ! (i + 1) ! j
                     else [1 / 2] ! j)
                    + 95 / 100 * (if i < 4 - 1 then advantages ! (i + 1) ! j else 0))))"
proof -
  have h: "has_shape 4 1 [[1], [1], [1], [1::real]]"
    "has_shape 4 1 [[False], [False], [False], [True]]"
    "has_shape 4 1 [[1 / 2], [1 / 2], [1 / 2], [1 / 2 :: real]]"
    "length [1 / 2 :: real] = 1"
    by (simp_all add: has_shape_def)
  from gae_advantages_recurrence [OF h, of "99 / 100" "95 / 100"] h show ?thesis
    by (intro conjI)
qed

lemma gae_four_steps:
  "gae_advantages [[1], [1], [1], [1]] [[False], [False], [False], [True]]
     [[1 / 2], [1 / 2], [1 / 2], [1 / 2]] [1 / 2] (99 / 100) (95 / 100)
   = Inr [[51629921621 / 16000000000], [18984541 / 8000000], [5861 / 4000], [1 / 2]]"
  by (simp add: gae_advantages_def gae_step_def np_get_def np_broadcast2_def np_setitem_def
      bind_res_def)

lemma returns_four_steps:
  "np_broadcast2_rows (+)
     [[51629921621 / 16000000000], [18984541 / 8000000], [5861 / 4000], [1 / 2]]
     [[1 / 2], [1 / 2], [1 / 2], [1 / 2 :: real]]
   = Inr [[59629921621 / 16000000000], [22984541 / 8000000], [7861 / 4000], [1]]"
  by (simp add: np_broadcast2_rows_def np_broadcast2_def bind_res_def)

text \<open>
  Claim C2. The compiled variant \<^verbatim>\<open>_compute_gae\<close> is to return what \<^verbatim>\<open>compute_gae\<close>
  returns. On the four-step trajectory with rewards 1, values 1/2, a terminal last step,
  bootstrap value 1/2, discount 0.99 and lambda 0.95 the reference implementation returns
  its returns and advantages, and the compiled variant raises NotImplementedError.
\<close>

theorem compute_gae_jit_not_implemented:
  "compute_gae_jit [[1], [1], [1], [1]] [[False], [False], [False], [True]]
     [[1 / 2], [1 / 2], [1 / 2], [1 / 2]] [1 / 2] (99 / 100) (95 / 100)
   = Inl NotImplementedError
   \<and> compute_gae [[1], [1], [1], [1]] [[False], [False], [False], [True]]
     [[1 / 2], [1 / 2], [1 / 2], [1 / 2]] [1 / 2] (99 / 100) (95 / 100)
   = Inr ([[59629921621 / 16000000000], [22984541 / 8000000], [7861 / 4000], [1]],
          normalize [[51629921621 / 16000000000], [18984541 / 8000000], [5861 / 4000], [1 / 2]])"
  unfolding compute_gae_jit_def compute_gae_normalize gae_four_steps bind_res_def sum.case
    returns_four_steps by simp

section \<open>Construction and the default configuration: claim C3\<close>

lemma PPO_init_Some:
  "PPO_init (Some c) s
   = PPO_init None (s(PPO_DEFAULT_CONFIG := dict_update (s PPO_DEFAULT_CONFIG) c))"
  by (simp add: PPO_init_def dict_update_def Let_def)

lemma PPO_init_None_store:
  "map_sum id (\<lambda>(s, a). (s, rollouts_attr a))
     (PPO_init None ((\<lambda>_. [])(PPO_DEFAULT_CONFIG := (''rollouts'', r) # tl PPO_DEFAULT_CONFIG_literal)))
   = Inr ((\<lambda>_. [])(PPO_DEFAULT_CONFIG := (''rollouts'', r) # tl PPO_DEFAULT_CONFIG_literal), r)"
  by (simp add: PPO_init_def dict_update_def PPO_DEFAULT_CONFIG_literal_def dict_getitem_def
      bind_res_def)

lemma default_literal_rollouts:
  "PPO_DEFAULT_CONFIG_literal = (''rollouts'', PInt 16) # tl PPO_DEFAULT_CONFIG_literal"
  "dict_setitem PPO_DEFAULT_CONFIG_literal ''rollouts'' r
   = (''rollouts'', r) # tl PPO_DEFAULT_CONFIG_literal"
  by (simp_all add: PPO_DEFAULT_CONFIG_literal_def)

text \<open>
  Claim C3. Constructing an agent is to leave the shared default configuration as it was.
  Constructing one agent with the override \<open>rollouts = 32\<close> stores 32 in the module's
  \<^verbatim>\<open>PPO_DEFAULT_CONFIG\<close>, and an agent constructed after it without any override gets
  \<open>rollouts = 32\<close>, where a first agent constructed without override gets 16.
\<close>

theorem PPO_init_mutates_defaults:
  "map_sum id (\<lambda>(s, a). (dict_getitem (s PPO_DEFAULT_CONFIG) ''rollouts'', rollouts_attr a))
     (PPO_init (Some [(''rollouts'', PInt 32)]) initial_store)
   = Inr (Inr (PInt 32), PInt 32)
   \<and> map_sum id (\<lambda>(s, a). rollouts_attr a)
       (bind_res (PPO_init (Some [(''rollouts'', PInt 32)]) initial_store)
          (\<lambda>(s, a). PPO_init None s))
     = Inr (PInt 32)
   \<and> map_sum id (\<lambda>(s, a). rollouts_attr a) (PPO_init None initial_store) = Inr (PInt 16)"
proof -
  let ?s1 = "(\<lambda>_. [])(PPO_DEFAULT_CONFIG := (''rollouts'', PInt 32) # tl PPO_DEFAULT_CONFIG_literal)"
  have s1: "initial_store(PPO_DEFAULT_CONFIG :=
              dict_update (initial_store PPO_DEFAULT_CONFIG) [(''rollouts'', PInt 32)]) = ?s1"
    by (simp add: initial_store_def dict_update_def default_literal_rollouts(2))
  have s0: "initial_store
            = (\<lambda>_. [])(PPO_DEFAULT_CONFIG := (''rollouts'', PInt 16) # tl PPO_DEFAULT_CONFIG_literal)"
    unfolding initial_store_def by (subst default_literal_rollouts(1)) (rule refl)
  from PPO_init_None_store [of "PInt 32"] obtain a1
    where a1: "PPO_init None ?s1 = Inr (?s1, a1)" "rollouts_attr a1 = PInt 32"
    by (cases "PPO_init None ?s1") auto
  from PPO_init_None_store [of "PInt 16"] obtain a0
    where a0: "PPO_init None initial_store = Inr (initial_store, a0)" "rollouts_attr a0 = PInt 16"
    unfolding s0 [symmetric] by (cases "PPO_init None initial_store") auto
  have first: "PPO_init (Some [(''rollouts'', PInt 32)]) initial_store = Inr (?s1, a1)"
    unfolding PPO_init_Some s1 by (rule a1(1))
  have "dict_getitem (?s1 PPO_DEFAULT_CONFIG) ''rollouts'' = Inr (PInt 32)"
    by (simp add: dict_getitem_def)
  with first a1 a0 show ?thesis by (simp add: bind_res_def)
qed

section \<open>Early stopping in the update: claim C4\<close>

text \<open>
  Claim C4. In an epoch of \<^verbatim>\<open>_update\<close> with \<open>kl_threshold > 0\<close>, let the minibatches \<open>pre\<close>
  be processed without any KL divergence above the threshold, and let the KL divergence of
  the next minibatch exceed it. Then the epoch ends there, whatever minibatches remain: the
  models, the optimizers and the cumulative losses are as they were after \<open>pre\<close> (no
  optimizer step for the triggering minibatch or a later one), the list of KL divergences
  is the one collected over \<open>pre\<close> followed by the triggering value, and a KL-adaptive
  scheduler is stepped once with the mean of that list.
\<close>

theorem early_stopping:
  assumes "0 < self_kl_threshold self"
    and "minibatch_loop E epoch pre (self, locals\<lparr>kl_divergences := []\<rparr>) = Inr (self1, locals1)"
    and "\<forall>k \<in> set (kl_divergences locals1). \<not> k > self_kl_threshold self"
    and "preprocess_states E (self_state_preprocessor self1) (mb_states batch) (epoch = 0)
         = (x, pp)"
    and "update_policy (grad_policy E) (model_log_prob E (self_policy self1))
           (model_params E (self_policy self1)) x (mb_actions batch) (mb_log_prob batch)
           (mb_advantages batch) (self_ratio_clip self1) = Inr (grad, ploss, kl)"
    and "kl > self_kl_threshold self"
  shows "\<exists>self2 locals2.
           learning_epoch E (pre @ batch # rest) epoch (self, locals) = Inr (self2, locals2)
           \<and> kl_divergences locals2 = kl_divergences locals1 @ [kl]
           \<and> self_policy self2 = self_policy self1
           \<and> self_value self2 = self_value self1
           \<and> self_policy_optimizer self2 = self_policy_optimizer self1
           \<and> self_value_optimizer self2 = self_value_optimizer self1
           \<and> cumulative_policy_loss locals2 = cumulative_policy_loss locals1
           \<and> cumulative_value_loss locals2 = cumulative_value_loss locals1
           \<and> cumulative_entropy_loss locals2 = cumulative_entropy_loss locals1
           \<and> self_scheduler self2
             = (if self_learning_rate_scheduler self \<noteq> None
                then map_option
                       (\<lambda>sch. scheduler_step E sch (jnp_mean (kl_divergences locals1 @ [kl])))
                       (self_scheduler self)
                else self_scheduler self)"
  using assms by (rule early_stopping_ok)

theorem early_stopping_witness:
  "0 < self_kl_threshold example_agent
   \<and> (\<exists>self2 locals2.
         learning_epoch example_collaborators [batch_same, batch_far, batch_same] 0
           (example_agent, zero_locals) = Inr (self2, locals2)
         \<and> kl_divergences locals2 = [0, exp 1 - 2]
         \<and> self_policy_optimizer self2 = [None]
         \<and> self_value_optimizer self2 = [None]
         \<and> self_scheduler self2 = Some [Some [jnp_mean [0, exp 1 - 2]]])"
proof -
  let ?self1 = "example_agent\<lparr>self_policy_optimizer := [None], self_value_optimizer := [None]\<rparr>"
  let ?locals1 = "zero_locals\<lparr>kl_divergences := [0]\<rparr>"
  have thr: "0 < self_kl_threshold example_agent" by (simp add: example_agent_def)
  have nobreak: "\<forall>k \<in> set (kl_divergences ?locals1). \<not> k > self_kl_threshold example_agent"
    by (simp add: example_agent_def)
  have pp: "preprocess_states example_collaborators (self_state_preprocessor ?self1)
              (mb_states batch_far) ((0::nat) = 0) = ([1], [])"
    by (simp add: example_collaborators_def example_agent_def batch_far_def)
  have exceeds: "exp 1 - 2 > self_kl_threshold example_agent"
    using exp_one_minus_two by (simp add: example_agent_def)
  from early_stopping [OF thr example_first_batch nobreak pp example_second_batch exceeds,
      of "[batch_same]"]
  obtain self2 locals2 where
    "learning_epoch example_collaborators ([batch_same] @ batch_far # [batch_same]) 0
       (example_agent, zero_locals) = Inr (self2, locals2)"
    "kl_divergences locals2 = kl_divergences ?locals1 @ [exp 1 - 2]"
    "self_policy_optimizer self2 = self_policy_optimizer ?self1"
    "self_value_optimizer self2 = self_value_optimizer ?self1"
    "self_scheduler self2
     = (if self_learning_rate_scheduler example_agent \<noteq> None
        then map_option
               (\<lambda>sch. scheduler_step example_collaborators sch
                        (jnp_mean (kl_divergences ?locals1 @ [exp 1 - 2])))
               (self_scheduler example_agent)
        else self_scheduler example_agent)"
    by blast
  then have "learning_epoch example_collaborators [batch_same, batch_far, batch_same] 0
           (example_agent, zero_locals) = Inr (self2, locals2)
         \<and> kl_divergences locals2 = [0, exp 1 - 2]
         \<and> self_policy_optimizer self2 = [None]
         \<and> self_value_optimizer self2 = [None]
         \<and> self_scheduler self2 = Some [Some [jnp_mean [0, exp 1 - 2]]]"
    by (simp add: example_agent_def example_collaborators_def)
  with thr show ?thesis by blast
qed

section \<open>Normalisation and returns: claims C5 and C6\<close>

text \<open>
  Claim C5 (amended). On a well-shaped, non-empty batch the advantages returned by
  \<^verbatim>\<open>compute_gae\<close> are \<open>(x - mean) / (std + 1e-8)\<close> of the advantages before normalisation,
  with mean and standard deviation taken over the whole batch. The divisor is positive.
  In exact arithmetic the returned advantages have mean 0 and standard deviation
  \<open>std / (std + 1e-8)\<close>, which is below 1 and close to 1 only when \<open>std\<close> is large
  against \<open>1e-8\<close>. For a constant batch every returned advantage is 0.
\<close>

theorem compute_gae_normalisation:
  assumes "has_shape T N rewards" and "has_shape T N dones" and "has_shape T N values"
    and "length next_values = N" and "0 < T" and "0 < N"
  shows "\<exists>raw returns advantages.
           gae_advantages rewards dones values next_values discount_factor lambda_coefficient
             = Inr raw
           \<and> compute_gae rewards dones values next_values discount_factor lambda_coefficient
             = Inr (returns, advantages)
           \<and> advantages = map (map (\<lambda>x. (x - np_mean raw) / (np_std raw + 1 / 10 ^ 8))) raw
           \<and> 0 < np_std raw + 1 / 10 ^ 8
           \<and> np_mean advantages = 0
           \<and> np_std advantages = np_std raw / (np_std raw + 1 / 10 ^ 8)
           \<and> np_std advantages < 1
           \<and> ((\<forall>i<T. \<forall>j<N. raw ! i ! j = raw ! 0 ! 0) \<longrightarrow> (\<forall>i<T. \<forall>j<N. advantages ! i ! j = 0))"
  using assms by (rule compute_gae_normalisation_ok)

theorem compute_gae_normalisation_witness:
  "has_shape 2 1 [[1], [1::real]] \<and> has_shape 2 1 [[True], [True]]
   \<and> has_shape 2 1 [[0], [0::real]] \<and> length [0::real] = 1 \<and> (0::nat) < 2 \<and> (0::nat) < 1
   \<and> (\<exists>returns advantages.
         compute_gae [[1], [1]] [[True], [True]] [[0], [0]] [0] (99 / 100) (95 / 100)
           = Inr (returns, advantages)
         \<and> np_mean advantages = 0
         \<and> (\<forall>i<2. \<forall>j<1. advantages ! i ! j = 0))"
proof -
  have h: "has_shape 2 1 [[1], [1::real]]" "has_shape 2 1 [[True], [True]]"
    "has_shape 2 1 [[0], [0::real]]" "length [0::real] = 1" "(0::nat) < 2" "(0::nat) < 1"
    by (simp_all add: has_shape_def)
  have g: "gae_advantages [[1], [1]] [[True], [True]] [[0], [0]] [0] (99 / 100) (95 / 100)
           = Inr [[1], [1]]"
    by (simp add: gae_advantages_def gae_step_def np_get_def np_broadcast2_def np_setitem_def
        bind_res_def)
  from compute_gae_normalisation [OF h, of "99 / 100" "95 / 100"] obtain raw returns advantages
    where r: "gae_advantages [[1], [1]] [[True], [True]] [[0], [0]] [0] (99 / 100) (95 / 100)
              = Inr raw"
      and c: "compute_gae [[1], [1]] [[True], [True]] [[0], [0]] [0] (99 / 100) (95 / 100)
              = Inr (returns, advantages)"
      and m: "np_mean advantages = 0"
      and k: "(\<forall>i<2. \<forall>j<1. raw ! i ! j = raw ! 0 ! 0) \<longrightarrow> (\<forall>i<2. \<forall>j<1. advantages ! i ! j = 0)"
    by blast
  from r g have "raw = [[1], [1]]" by simp
  then have "\<forall>i<2. \<forall>j<1. raw ! i ! j = raw ! 0 ! 0"
    by (simp add: less_Suc_eq numeral_2_eq_2)
  with k have "\<forall>i<2. \<forall>j<1. advantages ! i ! j = 0" by blast
  with c m h show ?thesis by blast
qed

text \<open>
  Claim C5 as stated fails on a batch of small spread: the advantages \<open>0\<close> and \<open>2e-8\<close>
  have standard deviation \<open>1e-8\<close>, not zero, and are normalised to \<open>-1/2\<close> and \<open>1/2\<close>,
  whose standard deviation is \<open>1/2\<close>.
\<close>

theorem compute_gae_std_counterexample:
  "compute_gae [[0], [2 / 10 ^ 8]] [[True], [True]] [[0], [0]] [0] (99 / 100) (95 / 100)
     = Inr ([[0], [2 / 10 ^ 8]], [[- 1 / 2], [1 / 2]])
   \<and> np_std [[0], [2 / 10 ^ 8]] \<noteq> 0
   \<and> np_std [[- 1 / 2], [1 / 2]] = 1 / 2"
proof -
  have "compute_gae [[0], [2 / 10 ^ 8]] [[True], [True]] [[0], [0]] [0] (99 / 100) (95 / 100)
     = Inr ([[0], [2 / 10 ^ 8]], [[- 1 / 2], [1 / 2]])"
    unfolding compute_gae_normalize gae_small_raw bind_res_def sum.case returns_small
      normalize_small by (rule refl)
  moreover have "np_std [[0], [2 / 10 ^ 8]] \<noteq> 0"
    unfolding np_std_small by simp
  ultimately show ?thesis using np_std_half by (intro conjI)
qed

text \<open>
  Claim C6. On well-shaped inputs \<^verbatim>\<open>compute_gae\<close> returns, at every index, the advantage
  computed by the backward loop (before normalisation) plus the value: the normalisation
  that follows changes the advantages output only.
\<close>

theorem compute_gae_returns:
  assumes "has_shape T N rewards" and "has_shape T N dones" and "has_shape T N values"
    and "length next_values = N"
  shows "\<exists>raw returns advantages.
           gae_advantages rewards dones values next_values discount_factor lambda_coefficient
             = Inr raw
           \<and> compute_gae rewards dones values next_values discount_factor lambda_coefficient
             = Inr (returns, advantages)
           \<and> has_shape T N returns
           \<and> (\<forall>i<T. \<forall>j<N. returns ! i ! j = raw ! i ! j + values ! i ! j)"
  using assms by (rule compute_gae_returns_ok)

theorem compute_gae_returns_witness:
  "has_shape 4 1 [[1], [1], [1], [1::real]]
   \<and> has_shape 4 1 [[False], [False], [False], [True]]
   \<and> has_shape 4 1 [[1 / 2], [1 / 2], [1 / 2], [1 / 2 :: real]]
   \<and> length [1 / 2 :: real] = 1
   \<and> (\<exists>raw returns advantages.
         gae_advantages [[1], [1], [1], [1]] [[False], [False], [False], [True]]
           [[1 / 2], [1 / 2], [1 / 2], [1 / 2]] [1 / 2] (99 / 100) (95 / 100) = Inr raw
         \<and> compute_gae [[1], [1], [1], [1]] [[False], [False], [False], [True]]
           [[1 / 2], [1 / 2], [1 / 2], [1 / 2]] [1 / 2] (99 / 100) (95 / 100)
           = Inr (returns, advantages)
         \<and> has_shape 4 1 returns
         \<and> (\<forall>i<4. \<forall>j<1. returns ! i ! j
               = raw ! i ! j + [[1 / 2], [1 / 2], [1 / 2], [1 / 2]] ! i ! j))"
proof -
  have h: "has_shape 4 1 [[1], [1], [1], [1::real]]"
    "has_shape 4 1 [[False], [False], [False], [True]]"
    "has_shape 4 1 [[1 / 2], [1 / 2], [1 / 2], [1 / 2 :: real]]"
    "length [1 / 2 :: real] = 1"
    by (simp_all add: has_shape_def)
  from compute_gae_returns [OF h, of "99 / 100" "95 / 100"] h show ?thesis
    by (intro conjI)
qed

section \<open>The losses: claims C7 and C8\<close>

text \<open>
  Claim C7. Adding one constant to every old log-probability (\<^verbatim>\<open>sampled_log_prob\<close>) and to
  every new log-probability (what the policy's forward pass returns) leaves the result of
  \<^verbatim>\<open>_update_policy\<close> unchanged: the same loss, the same KL divergence, and the same
  loss function handed to automatic differentiation.
\<close>

theorem update_policy_shift_invariant:
  "update_policy jax_grad (\<lambda>p s a. map (\<lambda>l. l + c) (policy_act p s a)) params sampled_states
     sampled_actions (map (\<lambda>l. l + c) sampled_log_prob) sampled_advantages ratio_clip
   = update_policy jax_grad policy_act params sampled_states sampled_actions sampled_log_prob
       sampled_advantages ratio_clip"
  by (simp only: update_policy_def policy_loss_shift)



section \<open>Acting, recording and the unused clipping coefficient: claims C9 and C10\<close>

text \<open>
  Claim C9. When \<^verbatim>\<open>act\<close> is called with \<open>timestep < random_timesteps\<close> it returns what the
  policy's \<^verbatim>\<open>random_act\<close> returns and leaves the cached log-probability as it was; a
  \<^verbatim>\<open>record_transition\<close> that follows hands that cached value, as \<^verbatim>\<open>log_prob\<close>, to
  \<^verbatim>\<open>add_samples\<close> of the memory and of every secondary memory.
\<close>

theorem act_random_keeps_log_prob:
  assumes "timestep < self_random_timesteps self" and "self_memory self = Some memory"
  shows "fst (PPO_act E states_arg timestep timesteps self)
         = RandomAct (fst (model_random_act E (self_policy self)
             (fst (preprocess_states E (self_state_preprocessor self) states_arg False))))
       \<and> self_current_log_prob (snd (PPO_act E states_arg timestep timesteps self))
         = self_current_log_prob self
       \<and> (\<exists>sample. kw_log_prob sample = self_current_log_prob self
             \<and> kw_actions sample = actions_arg
             \<and> self_memory (PPO_record_transition E states_arg actions_arg rewards_arg
                   next_states_arg terminated_arg truncated_arg infos timestep timesteps
                   (snd (PPO_act E states_arg timestep timesteps self)))
                 = Some (add_samples E sample memory)
             \<and> self_secondary_memories (PPO_record_transition E states_arg actions_arg rewards_arg
                   next_states_arg terminated_arg truncated_arg infos timestep timesteps
                   (snd (PPO_act E states_arg timestep timesteps self)))
                 = map (add_samples E sample) (self_secondary_memories self))"
  using assms by (rule act_then_record_ok)

theorem act_random_keeps_log_prob_witness:
  "(0::int) < self_random_timesteps example_agent
   \<and> self_memory example_agent = Some []
   \<and> fst (PPO_act example_collaborators [1] 0 100 example_agent) = RandomAct []
   \<and> self_current_log_prob (snd (PPO_act example_collaborators [1] 0 100 example_agent)) = None
   \<and> self_memory (PPO_record_transition example_collaborators [1] [2] [3] [4] [False] [False] []
         0 100 (snd (PPO_act example_collaborators [1] 0 100 example_agent)))
     = Some [None]
   \<and> self_secondary_memories (PPO_record_transition example_collaborators [1] [2] [3] [4]
         [False] [False] [] 0 100 (snd (PPO_act example_collaborators [1] 0 100 example_agent)))
     = [[None]]"
proof -
  have h: "(0::int) < self_random_timesteps example_agent" "self_memory example_agent = Some []"
    by (simp_all add: example_agent_def)
  from act_random_keeps_log_prob [OF h, of example_collaborators "[1]" 100 "[2]" "[3]" "[4]"
      "[False]" "[False]" "[]"]
  obtain sample where
    "fst (PPO_act example_collaborators [1] 0 100 example_agent)
     = RandomAct (fst (model_random_act example_collaborators (self_policy example_agent)
         (fst (preprocess_states example_collaborators (self_state_preprocessor example_agent)
                 [1] False))))"
    "self_current_log_prob (snd (PPO_act example_collaborators [1] 0 100 example_agent))
     = self_current_log_prob example_agent"
    "kw_log_prob sample = self_current_log_prob example_agent"
    "self_memory (PPO_record_transition example_collaborators [1] [2] [3] [4] [False] [False] []
         0 100 (snd (PPO_act example_collaborators [1] 0 100 example_agent)))
     = Some (add_samples example_collaborators sample [])"
    "self_secondary_memories (PPO_record_transition example_collaborators [1] [2] [3] [4]
         [False] [False] [] 0 100 (snd (PPO_act example_collaborators [1] 0 100 example_agent)))
     = map (add_samples example_collaborators sample) (self_secondary_memories example_agent)"
    by blast
  then show ?thesis
    using h by (simp add: example_agent_def example_collaborators_def)
qed

text \<open>
  Claim C10. \<^verbatim>\<open>_update\<close> never reads \<^verbatim>\<open>self._grad_norm_clip\<close>: run from two agents that
  differ in that attribute only, it raises the same exception or returns agents (models,
  optimizers, scheduler, memory, tracked data) that differ in that attribute only.
\<close>

theorem grad_norm_clip_unused:
  "PPO_update E timestep timesteps (self\<lparr>self_grad_norm_clip := c\<rparr>)
   = map_sum id (\<lambda>s. s\<lparr>self_grad_norm_clip := c\<rparr>) (PPO_update E timestep timesteps self)"
  by (rule PPO_update_grad_norm_clip_ok)

end
